theory Spec2Isabelle
  imports Main "HOL-Library.Sublist" "HOL-Library.Word"
begin

section \<open>Admission validation of AdvancedCronJob\<close>

text \<open>
  A shallow embedding of the schedule formatter of the AdvancedCronJob controller and of its
  validating admission handler. Libraries that the code calls but does not define (the cron
  parser, the time zone database, the pod template validator, the image reference
  normaliser, the label selector compiler, the object metadata validators and the admission
  decoder) are parameters of the functions that call them.
\<close>

subsection \<open>Strings\<close>

text \<open>
  Go strings are byte sequences, as \<^typ>\<open>string\<close> is. \<open>strings.HasPrefix\<close> and
  \<open>strings.Contains\<close> are written as the scans they are.
\<close>

fun hasPrefix :: "string \<Rightarrow> string \<Rightarrow> bool" where
  "hasPrefix s [] = True"
| "hasPrefix [] (p # ps) = False"
| "hasPrefix (c # cs) (p # ps) = (c = p \<and> hasPrefix cs ps)"

fun contains :: "string \<Rightarrow> string \<Rightarrow> bool" where
  "contains [] substr = hasPrefix [] substr"
| "contains (c # cs) substr = (hasPrefix (c # cs) substr \<or> contains cs substr)"

text \<open>
  \<open>strings.EqualFold\<close> on bytes below \<open>0x80\<close>: two bytes match when they are equal or
  when one is an upper case letter and the other the same letter in lower case; the strings
  match when they have the same length and every pair of bytes matches. A byte from
  \<open>0x80\<close> on matches only itself here, which is what Go computes whenever one of the two
  strings is ASCII without the letters \<open>k\<close> and \<open>s\<close>, as \<open>Local\<close> is.
\<close>

definition isUpper :: "char \<Rightarrow> bool" where
  "isUpper c = (65 \<le> (of_char c :: nat) \<and> (of_char c :: nat) \<le> 90)"

definition foldsTo :: "char \<Rightarrow> char \<Rightarrow> bool" where
  "foldsTo sr tr = (isUpper sr \<and> (of_char tr :: nat) = of_char sr + 32)"

definition byteEqualFold :: "char \<Rightarrow> char \<Rightarrow> bool" where
  "byteEqualFold sr tr = (sr = tr \<or> foldsTo sr tr \<or> foldsTo tr sr)"

fun equalFold :: "string \<Rightarrow> string \<Rightarrow> bool" where
  "equalFold [] [] = True"
| "equalFold (sr # s) (tr # t) = (byteEqualFold sr tr \<and> equalFold s t)"
| "equalFold _ _ = False"

text \<open>The decimal rendering that \<open>%d\<close> produces.\<close>

definition digit :: "nat \<Rightarrow> char" where
  "digit d = ''0123456789'' ! d"

fun showNat :: "nat \<Rightarrow> string" where
  "showNat n = (if n < 10 then [digit n] else showNat (n div 10) @ [digit (n mod 10)])"

declare showNat.simps [simp del]

definition showInt :: "int \<Rightarrow> string" where
  "showInt i = (if i < 0 then CHR ''-'' # showNat (nat (- i)) else showNat (nat i))"

subsection \<open>Panics and recovery\<close>

text \<open>
  A Go call either returns a value or panics with a value, rendered here as the text that
  \<open>%v\<close> prints. A deferred function that calls \<open>recover()\<close> stops a panic of the
  function body: the function then returns normally, with the result that the deferred
  function has set.
\<close>

datatype 'a outcome = Returns 'a | Panics string

definition recovering :: "'a outcome \<Rightarrow> (string \<Rightarrow> 'a) \<Rightarrow> 'a outcome" where
  "recovering body handler =
     (case body of Returns v \<Rightarrow> Returns v | Panics r \<Rightarrow> Returns (handler r))"

definition andThen :: "'a outcome \<Rightarrow> ('a \<Rightarrow> 'b outcome) \<Rightarrow> 'b outcome" where
  "andThen m f = (case m of Returns v \<Rightarrow> f v | Panics r \<Rightarrow> Panics r)"

text \<open>
  A block of a function that may return early: \<open>Some e\<close> is \<open>return e\<close>, \<open>None\<close> goes
  on with the statements that follow the block.
\<close>

definition orElse :: "'a option \<Rightarrow> 'a option \<Rightarrow> 'a option" where
  "orElse block rest = (case block of Some e \<Rightarrow> Some e | None \<Rightarrow> rest)"

subsection \<open>Field paths and validation errors\<close>

text \<open>
  A field path is the list of its names from the root; \<open>spec.schedule\<close> is
  \<open>[''spec'', ''schedule'']\<close>. An error carries its type, its path and its detail text. The
  offending value that \<open>field.Invalid\<close> also records is a copy of the input and is left out.
\<close>

type_synonym path = "string list"

definition NewPath :: "string \<Rightarrow> path" where
  "NewPath name = [name]"

definition Child :: "path \<Rightarrow> string \<Rightarrow> path" where
  "Child p name = p @ [name]"

definition Root :: "path \<Rightarrow> path" where
  "Root p = take 1 p"

datatype ErrorType =
    ErrorTypeNotFound | ErrorTypeRequired | ErrorTypeDuplicate | ErrorTypeInvalid
  | ErrorTypeNotSupported | ErrorTypeForbidden | ErrorTypeTooLong | ErrorTypeTooMany
  | ErrorTypeInternal | ErrorTypeTypeInvalid

datatype field_error = FieldError (errType: ErrorType) (errField: path) (errDetail: string)

definition Invalid :: "path \<Rightarrow> string \<Rightarrow> field_error" where
  "Invalid fldPath detail = FieldError ErrorTypeInvalid fldPath detail"

definition Forbidden :: "path \<Rightarrow> string \<Rightarrow> field_error" where
  "Forbidden fldPath detail = FieldError ErrorTypeForbidden fldPath detail"

subsection \<open>The resource\<close>

text \<open>
  Modelled from the spec: the declarations of the API types (package \<open>apis/apps/v1beta1\<close>)
  are not among the sources. The records hold the fields that the spec's data model lists
  and that the code reads. String-typed enumerations (\<open>ConcurrencyPolicy\<close>,
  \<open>CompletionPolicyType\<close>) are strings, since any string can arrive; a pointer is an
  option; a slice or map that the code tests against \<open>nil\<close> is an option of a list. A job
  template and a broadcast job template are values of the type parameters \<open>'j\<close> and
  \<open>'b\<close>.
\<close>

record LabelSelector =
  MatchLabels :: "(string \<times> string) list option"
  MatchExpressions :: "(string \<times> string \<times> string list) list option"

record ImagePullJobNodeSelector =
  Names :: "string list option"
  NodeLabelSelector :: LabelSelector

record ImagePullJobPodSelector =
  PodLabelSelector :: LabelSelector

record PullPolicy =
  TimeoutSeconds :: "32 word option"

record CompletionPolicy =
  CompletionType :: string
  ActiveDeadlineSeconds :: "64 word option"
  TTLSecondsAfterFinished :: "32 word option"

record ImageListPullJobSpec =
  Images :: "string list"
  Selector :: "ImagePullJobNodeSelector option"
  PodSelector :: "ImagePullJobPodSelector option"
  PullPolicy :: "PullPolicy option"
  CompletionPolicy :: CompletionPolicy

record ImageListPullJobTemplateSpec =
  ILPSpec :: ImageListPullJobSpec

record ('j, 'b) CronJobTemplate =
  JobTemplate :: "'j option"
  BroadcastJobTemplate :: "'b option"
  ImageListPullJobTemplate :: "ImageListPullJobTemplateSpec option"

record ('j, 'b) AdvancedCronJobSpec =
  Schedule :: string
  TimeZone :: "string option"
  StartingDeadlineSeconds :: "64 word option"
  ConcurrencyPolicy :: string
  Paused :: bool
  SuccessfulJobsHistoryLimit :: "32 word option"
  FailedJobsHistoryLimit :: "32 word option"
  Template :: "('j, 'b) CronJobTemplate"

record ('m, 'j, 'b) AdvancedCronJob =
  ObjectMeta :: 'm
  Spec :: "('j, 'b) AdvancedCronJobSpec"

definition AllowConcurrent :: string where "AllowConcurrent = ''Allow''"
definition ForbidConcurrent :: string where "ForbidConcurrent = ''Forbid''"
definition ReplaceConcurrent :: string where "ReplaceConcurrent = ''Replace''"
definition Always :: string where "Always = ''Always''"

definition MaxActiveDeadLineSeconds :: int where
  "MaxActiveDeadLineSeconds = 3600 * 24"

definition MaxTTLSecondsAfterFinished :: int where
  "MaxTTLSecondsAfterFinished = 3600 * 24 * 3"

subsection \<open>Formatting the schedule\<close>

text \<open>
  \<open>loadLocation\<close> stands for \<open>time.LoadLocation\<close>: \<open>None\<close> when the zone loads,
  the error text otherwise. The log line written when the zone does not load is not part of
  the result.
\<close>

definition formatSchedule ::
  "(string \<Rightarrow> string option) \<Rightarrow> ('m, 'j, 'b) AdvancedCronJob \<Rightarrow> string" where
  "formatSchedule loadLocation acj =
     (if contains (Schedule (Spec acj)) ''TZ'' then Schedule (Spec acj)
      else case TimeZone (Spec acj) of
             Some tz \<Rightarrow>
               (case loadLocation tz of
                  Some err \<Rightarrow> Schedule (Spec acj)
                | None \<Rightarrow> ''TZ='' @ tz @ '' '' @ Schedule (Spec acj))
           | None \<Rightarrow> Schedule (Spec acj))"

subsection \<open>Schedule and time zone validation\<close>

text \<open>
  \<open>parseStandard\<close> stands for \<open>cron.ParseStandard\<close>: it returns its error (\<open>None\<close>
  for a schedule that parses) or panics.
\<close>

definition validateCronSchedule ::
  "(string \<Rightarrow> string option outcome) \<Rightarrow> string \<Rightarrow> string option outcome" where
  "validateCronSchedule parseStandard schedule =
     recovering (parseStandard schedule) (\<lambda>r. Some (''invalid cron schedule: '' @ r))"

definition ambiguousTimeZone :: string where
  "ambiguousTimeZone = ''cannot use both timeZone field and TZ or CRON_TZ in schedule''"

definition validateAdvancedCronJobSpecSchedule ::
  "(string \<Rightarrow> string option outcome) \<Rightarrow> ('j, 'b) AdvancedCronJobSpec \<Rightarrow> path
     \<Rightarrow> field_error list outcome" where
  "validateAdvancedCronJobSpecSchedule parseStandard spec fldPath =
     andThen (validateCronSchedule parseStandard (Schedule spec)) (\<lambda>err. Returns (
       (if length (Schedule spec) = 0
        then [Invalid (Child fldPath ''schedule'')
                ''schedule cannot be empty, please provide valid cron schedule.'']
        else [])
       @ (case err of
            Some e \<Rightarrow> [Invalid (Child fldPath ''schedule'') e]
          | None \<Rightarrow> [])
       @ (if contains (Schedule spec) ''TZ'' \<and> TimeZone spec \<noteq> None
          then [Invalid (Child fldPath ''schedule'') ambiguousTimeZone]
          else [])))"

definition explicitTimeZone :: string where
  "explicitTimeZone =
     ''timeZone must be an explicit time zone as defined in https://www.iana.org/time-zones''"

definition validateTimeZone ::
  "(string \<Rightarrow> string option) \<Rightarrow> string option \<Rightarrow> path \<Rightarrow> field_error list" where
  "validateTimeZone loadLocation timeZone fldPath =
     (case timeZone of
        None \<Rightarrow> []
      | Some tz \<Rightarrow>
          if length tz = 0
          then [Invalid fldPath ''timeZone must be nil or non-empty string'']
          else (if equalFold tz ''Local'' then [Invalid fldPath explicitTimeZone] else [])
               @ (case loadLocation tz of
                    Some err \<Rightarrow> [Invalid fldPath err]
                  | None \<Rightarrow> []))"

subsection \<open>Image list pull job templates\<close>

text \<open>
  \<open>sets.NewString(names...).Len()\<close> is the number of distinct names.
\<close>

definition namesDuplicated :: "string list \<Rightarrow> bool" where
  "namesDuplicated names = (length (remdups names) \<noteq> length names)"

text \<open>
  The selector block: \<open>Some e\<close> is \<open>return append(allErrs, e)\<close> with \<open>allErrs\<close> still
  empty. \<open>asSelector\<close> stands for \<open>metav1.LabelSelectorAsSelector\<close> and gives its
  error, if any.
\<close>

definition checkSelector ::
  "(LabelSelector \<Rightarrow> string option) \<Rightarrow> ImageListPullJobSpec \<Rightarrow> path \<Rightarrow> field_error option" where
  "checkSelector asSelector spec fldPath =
     (case Selector spec of
        None \<Rightarrow> None
      | Some sel \<Rightarrow>
          orElse
            (if MatchLabels (NodeLabelSelector sel) \<noteq> None
                  \<or> MatchExpressions (NodeLabelSelector sel) \<noteq> None
             then orElse
                    (if Names sel \<noteq> None
                     then Some (Invalid (Child (Child fldPath ''spec'') ''selector'')
                            ''can not set both names and labelSelector in this spec.selector'')
                     else None)
                    (case asSelector (NodeLabelSelector sel) of
                       Some err \<Rightarrow>
                         Some (Invalid
                           (Child (Child (Child fldPath ''spec'') ''selector'') ''labelSelector'')
                           (''invalid selector: '' @ err))
                     | None \<Rightarrow> None)
             else None)
            (case Names sel of
               Some names \<Rightarrow>
                 if namesDuplicated names
                 then Some (Invalid (Child (Child (Child fldPath ''spec'') ''selector'') ''names'')
                        ''duplicated name in selector names'')
                 else None
             | None \<Rightarrow> None))"

definition checkPodSelector ::
  "(LabelSelector \<Rightarrow> string option) \<Rightarrow> ImageListPullJobSpec \<Rightarrow> path \<Rightarrow> field_error option" where
  "checkPodSelector asSelector spec fldPath =
     (case PodSelector spec of
        None \<Rightarrow> None
      | Some psel \<Rightarrow>
          if Selector spec \<noteq> None
          then Some (Invalid (Child fldPath ''spec'') ''can not set both selector and podSelector'')
          else (case asSelector (PodLabelSelector psel) of
                  Some err \<Rightarrow>
                    Some (Invalid (Child (Child (Child fldPath ''spec'') ''podSelector'') ''labelSelector'')
                      (''invalid selector: '' @ err))
                | None \<Rightarrow> None))"

text \<open>The two nested index loops that look for a repeated image.\<close>

function duplicateFrom :: "string list \<Rightarrow> nat \<Rightarrow> nat \<Rightarrow> bool" where
  "duplicateFrom images i j =
     (if j < length images
      then (if images ! i = images ! j then True else duplicateFrom images i (j + 1))
      else False)"
  by pat_completeness auto
termination
  by (relation "measure (\<lambda>(images, i, j). length images - j)") auto

declare duplicateFrom.simps [simp del]

function hasDuplicateFrom :: "string list \<Rightarrow> nat \<Rightarrow> bool" where
  "hasDuplicateFrom images i =
     (if i < length images
      then (if duplicateFrom images i (i + 1) then True else hasDuplicateFrom images (i + 1))
      else False)"
  by pat_completeness auto
termination
  by (relation "measure (\<lambda>(images, i). length images - i)") auto

declare hasDuplicateFrom.simps [simp del]

text \<open>
  The loop over the images that stops at the first one that \<open>normalizeImageRef\<close>
  (\<open>daemonutil.NormalizeImageRef\<close>) refuses, with the image and the error.
\<close>

fun firstInvalidImage :: "(string \<Rightarrow> string option) \<Rightarrow> string list \<Rightarrow> (string \<times> string) option" where
  "firstInvalidImage normalizeImageRef [] = None"
| "firstInvalidImage normalizeImageRef (img # rest) =
     (case normalizeImageRef img of
        Some err \<Rightarrow> Some (img, err)
      | None \<Rightarrow> firstInvalidImage normalizeImageRef rest)"

definition imageEmpty :: string where
  "imageEmpty = ''image can not be empty''"

definition imageTooMany :: string where
  "imageTooMany = ''the maximum number of images cannot > 255''"

definition imageDuplicate :: string where
  "imageDuplicate = ''images cannot have duplicate values''"

definition imageInvalid :: "string \<Rightarrow> string \<Rightarrow> string" where
  "imageInvalid img err = ''invalid image '' @ img @ '': '' @ err"

definition checkImages ::
  "(string \<Rightarrow> string option) \<Rightarrow> ImageListPullJobSpec \<Rightarrow> path \<Rightarrow> field_error option" where
  "checkImages normalizeImageRef spec fldPath =
     (if length (Images spec) = 0
      then Some (Invalid (Child (Child fldPath ''spec'') ''images'') imageEmpty)
      else if length (Images spec) > 255
      then Some (Invalid (Child (Child fldPath ''spec'') ''images'') imageTooMany)
      else if hasDuplicateFrom (Images spec) 0
      then Some (Invalid (Child (Child fldPath ''spec'') ''images'') imageDuplicate)
      else (case firstInvalidImage normalizeImageRef (Images spec) of
              Some (img, err) \<Rightarrow>
                Some (Invalid (Child (Child fldPath ''spec'') ''images'') (imageInvalid img err))
            | None \<Rightarrow> None))"

text \<open>
  The completion policy switch. \<open>ActiveDeadlineSeconds\<close> is an \<open>int64\<close>,
  \<open>TimeoutSeconds\<close> and \<open>TTLSecondsAfterFinished\<close> are \<open>int32\<close>; the comparisons are
  signed, and \<open>int64(timeout)\<close> keeps the value.
\<close>

definition completionPolicyPath :: "path \<Rightarrow> string \<Rightarrow> path" where
  "completionPolicyPath fldPath name = Child (Child (Child fldPath ''spec'') ''completionPolicy'') name"

definition deadlineTooLarge :: "64 word \<Rightarrow> string" where
  "deadlineTooLarge d =
     ''activeDeadlineSeconds must be less than '' @ showInt MaxActiveDeadLineSeconds
       @ '', current value is: '' @ showInt (sint d)"

definition deadlineBelowTimeout :: "32 word \<Rightarrow> string" where
  "deadlineBelowTimeout t =
     ''completionPolicy.activeDeadlineSeconds must be greater than pullPolicy.timeoutSeconds(''
       @ showInt (sint t) @ '')''"

definition ttlTooLarge :: "32 word \<Rightarrow> string" where
  "ttlTooLarge t =
     ''ttlSecondsAfterFinished must be less than '' @ showInt MaxTTLSecondsAfterFinished
       @ '', current value is: '' @ showInt (sint t)"

definition typeNotAlways :: "string \<Rightarrow> string" where
  "typeNotAlways ty = ''completionPolicy should be Always, but current value is: '' @ ty"

definition checkCompletionPolicy :: "ImageListPullJobSpec \<Rightarrow> path \<Rightarrow> field_error option" where
  "checkCompletionPolicy spec fldPath =
     (let cp = CompletionPolicy spec in
      if CompletionType cp = Always
      then orElse
             (case ActiveDeadlineSeconds cp of
                Some d \<Rightarrow>
                  if sint d > MaxActiveDeadLineSeconds
                  then Some (Invalid (completionPolicyPath fldPath ''activeDeadlineSeconds'')
                         (deadlineTooLarge d))
                  else None
              | None \<Rightarrow> None)
          (orElse
             (case ActiveDeadlineSeconds cp of
                Some d \<Rightarrow>
                  (case PullPolicy spec of
                     Some pp \<Rightarrow>
                       (case TimeoutSeconds pp of
                          Some t \<Rightarrow>
                            if sint t > sint d
                            then Some (Invalid
                                   (completionPolicyPath fldPath ''activeDeadlineSeconds'')
                                   (deadlineBelowTimeout t))
                            else None
                        | None \<Rightarrow> None)
                   | None \<Rightarrow> None)
              | None \<Rightarrow> None)
             (case TTLSecondsAfterFinished cp of
                Some ttl \<Rightarrow>
                  if sint ttl > MaxTTLSecondsAfterFinished
                  then Some (Invalid (completionPolicyPath fldPath ''ttlSecondsAfterFinished'')
                         (ttlTooLarge ttl))
                  else None
              | None \<Rightarrow> None))
      else Some (Invalid (completionPolicyPath fldPath ''type'') (typeNotAlways (CompletionType cp))))"

definition validateImageListPullJobTemplateSpec ::
  "(LabelSelector \<Rightarrow> string option) \<Rightarrow> (string \<Rightarrow> string option)
     \<Rightarrow> ImageListPullJobTemplateSpec \<Rightarrow> path \<Rightarrow> field_error list" where
  "validateImageListPullJobTemplateSpec asSelector normalizeImageRef ilpJobSpec fldPath =
     (case orElse (checkSelector asSelector (ILPSpec ilpJobSpec) fldPath)
            (orElse (checkPodSelector asSelector (ILPSpec ilpJobSpec) fldPath)
            (orElse (checkImages normalizeImageRef (ILPSpec ilpJobSpec) fldPath)
                    (checkCompletionPolicy (ILPSpec ilpJobSpec) fldPath))) of
        Some e \<Rightarrow> [e]
      | None \<Rightarrow> [])"

subsection \<open>Template selection\<close>

text \<open>
  The libraries behind the validators. A pod template has type \<open>'p\<close>, its internal form
  type \<open>'c\<close>, object metadata type \<open>'m\<close>; \<open>jobPodTemplate\<close> and
  \<open>broadcastPodTemplate\<close> read \<open>Spec.Template\<close> of a template. A conversion or a
  compilation that fails gives its error text.
\<close>

record ('m, 'j, 'b, 'p, 'c) libraries =
  cron_ParseStandard :: "string \<Rightarrow> string option outcome"
  time_LoadLocation :: "string \<Rightarrow> string option"
  genericvalidation_ValidateObjectMeta :: "'m \<Rightarrow> path \<Rightarrow> field_error list"
  apivalidation_ValidateObjectMetaUpdate :: "'m \<Rightarrow> 'm \<Rightarrow> path \<Rightarrow> field_error list"
  apivalidation_ValidateNonnegativeField :: "int \<Rightarrow> path \<Rightarrow> field_error list"
  apivalidation_ValidatePodTemplateSpec :: "'c \<Rightarrow> path \<Rightarrow> field_error list"
  corev1_Convert_PodTemplateSpec :: "'p \<Rightarrow> string + 'c"
  metav1_LabelSelectorAsSelector :: "LabelSelector \<Rightarrow> string option"
  daemonutil_NormalizeImageRef :: "string \<Rightarrow> string option"
  jobPodTemplate :: "'j \<Rightarrow> 'p"
  broadcastPodTemplate :: "'b \<Rightarrow> 'p"

definition convertPodTemplateSpec :: "('p \<Rightarrow> string + 'c) \<Rightarrow> 'p \<Rightarrow> string + 'c" where
  "convertPodTemplateSpec convert template =
     (case convert template of Inl err \<Rightarrow> Inl err | Inr coreTemplate \<Rightarrow> Inr coreTemplate)"

definition convertFailed :: "string \<Rightarrow> string" where
  "convertFailed err = ''Convert_v1_PodTemplateSpec_To_core_PodTemplateSpec failed: '' @ err"

definition validateJobTemplateSpec ::
  "('m, 'j, 'b, 'p, 'c) libraries \<Rightarrow> 'j \<Rightarrow> path \<Rightarrow> field_error list" where
  "validateJobTemplateSpec lib jobSpec fldPath =
     (case convertPodTemplateSpec (corev1_Convert_PodTemplateSpec lib) (jobPodTemplate lib jobSpec) of
        Inl err \<Rightarrow> [Invalid (Root fldPath) (convertFailed err)]
      | Inr coreTemplate \<Rightarrow>
          apivalidation_ValidatePodTemplateSpec lib coreTemplate (Child fldPath ''template''))"

definition validateBroadcastJobTemplateSpec ::
  "('m, 'j, 'b, 'p, 'c) libraries \<Rightarrow> 'b \<Rightarrow> path \<Rightarrow> field_error list" where
  "validateBroadcastJobTemplateSpec lib brJobSpec fldPath =
     (case convertPodTemplateSpec (corev1_Convert_PodTemplateSpec lib)
             (broadcastPodTemplate lib brJobSpec) of
        Inl err \<Rightarrow> [Invalid (Root fldPath) (convertFailed err)]
      | Inr coreTemplate \<Rightarrow>
          apivalidation_ValidatePodTemplateSpec lib coreTemplate (Child fldPath ''template''))"

definition mustHaveOneTemplate :: string where
  "mustHaveOneTemplate =
     ''spec must have one template, either JobTemplate or BroadcastJobTemplate or ImageListPullJobTemplate should be provided''"

definition onlyOneTemplate :: string where
  "onlyOneTemplate =
     ''spec can have only one template, either JobTemplate or BroadcastJobTemplate or ImageListPullJobTemplate should be provided''"

definition concurrencyPolicyInvalid :: "string \<Rightarrow> string" where
  "concurrencyPolicyInvalid cp =
     ''concurrencyPolicy should be Replace or Forbid, but current value is: '' @ cp"

text \<open>
  The template validator threads the pair of \<open>allErrs\<close> and \<open>templateCount\<close> through
  its three blocks, then looks at the count.
\<close>

definition validateAdvancedCronJobSpecTemplate ::
  "('m, 'j, 'b, 'p, 'c) libraries \<Rightarrow> ('j, 'b) AdvancedCronJobSpec \<Rightarrow> path \<Rightarrow> field_error list" where
  "validateAdvancedCronJobSpecTemplate lib spec fldPath =
     (let (allErrs, templateCount) = ([], 0 :: nat);
          (allErrs, templateCount) =
             (case JobTemplate (Template spec) of
                Some jt \<Rightarrow> (allErrs @ validateJobTemplateSpec lib jt fldPath, templateCount + 1)
              | None \<Rightarrow> (allErrs, templateCount));
          (allErrs, templateCount) =
             (case BroadcastJobTemplate (Template spec) of
                Some bjt \<Rightarrow>
                  (allErrs @ validateBroadcastJobTemplateSpec lib bjt fldPath, templateCount + 1)
              | None \<Rightarrow> (allErrs, templateCount));
          (allErrs, templateCount) =
             (case ImageListPullJobTemplate (Template spec) of
                Some ilp \<Rightarrow>
                  (allErrs
                     @ (if ConcurrencyPolicy spec = ReplaceConcurrent
                           \<or> ConcurrencyPolicy spec = ForbidConcurrent
                        then []
                        else [Invalid (Child (Child fldPath ''spec'') ''concurrencyPolicy'')
                                (concurrencyPolicyInvalid (ConcurrencyPolicy spec))])
                     @ validateImageListPullJobTemplateSpec (metav1_LabelSelectorAsSelector lib)
                         (daemonutil_NormalizeImageRef lib) ilp
                         (Child (Child fldPath ''template'') ''imageListPullJobTemplate''),
                   templateCount + 1)
              | None \<Rightarrow> (allErrs, templateCount))
      in if templateCount = 0
         then allErrs @ [Forbidden (Child fldPath ''template'') mustHaveOneTemplate]
         else if templateCount > 1
         then allErrs @ [Forbidden (Child fldPath ''template'') onlyOneTemplate]
         else allErrs)"

subsection \<open>The whole spec, on create and on update\<close>

definition validateAdvancedCronJobSpec ::
  "('m, 'j, 'b, 'p, 'c) libraries \<Rightarrow> ('j, 'b) AdvancedCronJobSpec \<Rightarrow> path
     \<Rightarrow> field_error list outcome" where
  "validateAdvancedCronJobSpec lib spec fldPath =
     andThen (validateAdvancedCronJobSpecSchedule (cron_ParseStandard lib) spec fldPath)
       (\<lambda>scheduleErrs. Returns (
          scheduleErrs
          @ validateAdvancedCronJobSpecTemplate lib spec fldPath
          @ (case StartingDeadlineSeconds spec of
               Some v \<Rightarrow> apivalidation_ValidateNonnegativeField lib (sint v)
                           (Child fldPath ''startingDeadlineSeconds'')
             | None \<Rightarrow> [])
          @ (case SuccessfulJobsHistoryLimit spec of
               Some v \<Rightarrow> apivalidation_ValidateNonnegativeField lib (sint v)
                           (Child fldPath ''successfulJobsHistoryLimit'')
             | None \<Rightarrow> [])
          @ (case FailedJobsHistoryLimit spec of
               Some v \<Rightarrow> apivalidation_ValidateNonnegativeField lib (sint v)
                           (Child fldPath ''failedJobsHistoryLimit'')
             | None \<Rightarrow> [])
          @ validateTimeZone (time_LoadLocation lib) (TimeZone spec) (Child fldPath ''timeZone'')))"

definition validateAdvancedCronJob ::
  "('m, 'j, 'b, 'p, 'c) libraries \<Rightarrow> ('m, 'j, 'b) AdvancedCronJob \<Rightarrow> field_error list outcome" where
  "validateAdvancedCronJob lib obj =
     andThen (validateAdvancedCronJobSpec lib (Spec obj) (NewPath ''spec''))
       (\<lambda>specErrs. Returns (
          genericvalidation_ValidateObjectMeta lib (ObjectMeta obj) (NewPath ''metadata'')
          @ specErrs))"

definition updateForbidden :: string where
  "updateForbidden =
     ''updates to advancedcronjob spec for fields other than 'imageListPullJobTemplate', 'schedule', 'concurrencyPolicy', 'successfulJobsHistoryLimit', 'failedJobsHistoryLimit', 'startingDeadlineSeconds', 'timeZone' and 'paused' are forbidden''"

text \<open>
  The update guard works on a copy of the new object, which a value is. The semantic deep
  equality of the two specs is equality of the records: a job template and a broadcast job
  template are taken up to that equality.
\<close>

definition validateAdvancedCronJobUpdate ::
  "('m, 'j, 'b, 'p, 'c) libraries \<Rightarrow> ('m, 'j, 'b) AdvancedCronJob \<Rightarrow> ('m, 'j, 'b) AdvancedCronJob
     \<Rightarrow> field_error list outcome" where
  "validateAdvancedCronJobUpdate lib obj oldObj =
     andThen (validateAdvancedCronJobSpec lib (Spec obj) (NewPath ''spec''))
       (\<lambda>specErrs.
          let allErrs = apivalidation_ValidateObjectMetaUpdate lib (ObjectMeta obj)
                          (ObjectMeta oldObj) (NewPath ''metadata'')
                        @ specErrs;
              advanceCronJob = obj;
              advanceCronJob = advanceCronJob
                \<lparr>Spec := (Spec advanceCronJob)\<lparr>Schedule := Schedule (Spec oldObj)\<rparr>\<rparr>;
              advanceCronJob = advanceCronJob
                \<lparr>Spec := (Spec advanceCronJob)
                   \<lparr>ConcurrencyPolicy := ConcurrencyPolicy (Spec oldObj)\<rparr>\<rparr>;
              advanceCronJob = advanceCronJob
                \<lparr>Spec := (Spec advanceCronJob)
                   \<lparr>SuccessfulJobsHistoryLimit := SuccessfulJobsHistoryLimit (Spec oldObj)\<rparr>\<rparr>;
              advanceCronJob = advanceCronJob
                \<lparr>Spec := (Spec advanceCronJob)
                   \<lparr>FailedJobsHistoryLimit := FailedJobsHistoryLimit (Spec oldObj)\<rparr>\<rparr>;
              advanceCronJob = advanceCronJob
                \<lparr>Spec := (Spec advanceCronJob)
                   \<lparr>StartingDeadlineSeconds := StartingDeadlineSeconds (Spec oldObj)\<rparr>\<rparr>;
              advanceCronJob = advanceCronJob
                \<lparr>Spec := (Spec advanceCronJob)\<lparr>Paused := Paused (Spec oldObj)\<rparr>\<rparr>;
              advanceCronJob = advanceCronJob
                \<lparr>Spec := (Spec advanceCronJob)\<lparr>TimeZone := TimeZone (Spec oldObj)\<rparr>\<rparr>;
              advanceCronJob =
                (case ImageListPullJobTemplate (Template (Spec oldObj)) of
                   Some ilp \<Rightarrow> advanceCronJob
                     \<lparr>Spec := (Spec advanceCronJob)
                        \<lparr>Template := (Template (Spec advanceCronJob))
                           \<lparr>ImageListPullJobTemplate := Some ilp\<rparr>\<rparr>\<rparr>
                 | None \<Rightarrow> advanceCronJob)
          in Returns (if Spec advanceCronJob \<noteq> Spec oldObj
                      then allErrs @ [Forbidden (NewPath ''spec'') updateForbidden]
                      else allErrs))"

subsection \<open>Decoding and the handler\<close>

text \<open>
  Modelled from the spec: the version names of the two API groups are constants of packages
  that are not among the sources; the canonical version is \<open>v1beta1\<close>, the older one
  \<open>v1alpha1\<close>.
\<close>

definition v1beta1_Version :: string where "v1beta1_Version = ''v1beta1''"
definition v1alpha1_Version :: string where "v1alpha1_Version = ''v1alpha1''"

record 'raw AdmissionRequest =
  Operation :: string
  ResourceVersion :: string
  Object :: 'raw
  OldObject :: 'raw

definition Create :: string where "Create = ''CREATE''"
definition Update :: string where "Update = ''UPDATE''"

text \<open>
  The decoder of the handler, by the type it decodes into (\<open>'a\<close> is the older version's
  object), and the conversion of the older object. Decoding fills the object it is given;
  when it fails, the object is left as it was.
\<close>

record ('raw, 'm, 'j, 'b, 'a) decoder =
  Decode_v1beta1 :: "'raw AdmissionRequest \<Rightarrow> string + ('m, 'j, 'b) AdvancedCronJob"
  Decode_v1alpha1 :: "'raw AdmissionRequest \<Rightarrow> string + 'a"
  DecodeRaw_v1beta1 :: "'raw \<Rightarrow> string + ('m, 'j, 'b) AdvancedCronJob"
  DecodeRaw_v1alpha1 :: "'raw \<Rightarrow> string + 'a"
  ConvertTo :: "'a \<Rightarrow> string + ('m, 'j, 'b) AdvancedCronJob"

definition convertToFailed :: "string \<Rightarrow> string" where
  "convertToFailed err = ''failed to convert v1alpha1->v1beta1: '' @ err"

definition unsupportedVersion :: "string \<Rightarrow> string" where
  "unsupportedVersion version = ''unsupported version: '' @ version"

definition decodeAdvancedCronJob ::
  "('raw, 'm, 'j, 'b, 'a) decoder \<Rightarrow> 'raw AdmissionRequest \<Rightarrow> ('m, 'j, 'b) AdvancedCronJob
     \<Rightarrow> string option \<times> ('m, 'j, 'b) AdvancedCronJob" where
  "decodeAdvancedCronJob dec req obj =
     (if ResourceVersion req = v1beta1_Version
      then (case Decode_v1beta1 dec req of
              Inl err \<Rightarrow> (Some err, obj)
            | Inr decoded \<Rightarrow> (None, decoded))
      else if ResourceVersion req = v1alpha1_Version
      then (case Decode_v1alpha1 dec req of
              Inl err \<Rightarrow> (Some err, obj)
            | Inr objv1alpha1 \<Rightarrow>
                (case ConvertTo dec objv1alpha1 of
                   Inl err \<Rightarrow> (Some (convertToFailed err), obj)
                 | Inr converted \<Rightarrow> (None, converted)))
      else (None, obj))"

definition decodeAdvancedCronJobFromRaw ::
  "('raw, 'm, 'j, 'b, 'a) decoder \<Rightarrow> 'raw \<Rightarrow> string \<Rightarrow> ('m, 'j, 'b) AdvancedCronJob
     \<Rightarrow> string option \<times> ('m, 'j, 'b) AdvancedCronJob" where
  "decodeAdvancedCronJobFromRaw dec raw version obj =
     (if version = v1beta1_Version
      then (case DecodeRaw_v1beta1 dec raw of
              Inl err \<Rightarrow> (Some err, obj)
            | Inr decoded \<Rightarrow> (None, decoded))
      else if version = v1alpha1_Version
      then (case DecodeRaw_v1alpha1 dec raw of
              Inl err \<Rightarrow> (Some err, obj)
            | Inr objv1alpha1 \<Rightarrow>
                (case ConvertTo dec objv1alpha1 of
                   Inl err \<Rightarrow> (Some (convertToFailed err), obj)
                 | Inr converted \<Rightarrow> (None, converted)))
      else (Some (unsupportedVersion version), obj))"

text \<open>
  The object that \<open>&appsv1beta1.AdvancedCronJob{}\<close> allocates, over the zero value of the
  object metadata.
\<close>

definition zeroAdvancedCronJob :: "'m \<Rightarrow> ('m, 'j, 'b) AdvancedCronJob" where
  "zeroAdvancedCronJob zeroMeta =
     \<lparr>ObjectMeta = zeroMeta,
      Spec = \<lparr>Schedule = [], TimeZone = None, StartingDeadlineSeconds = None,
              ConcurrencyPolicy = [], Paused = False, SuccessfulJobsHistoryLimit = None,
              FailedJobsHistoryLimit = None,
              Template = \<lparr>JobTemplate = None, BroadcastJobTemplate = None,
                          ImageListPullJobTemplate = None\<rparr>\<rparr>\<rparr>"

datatype response_error = DecodeError string | Aggregate "field_error list"

datatype Response = Errored nat response_error | ValidationResponse bool string

definition StatusBadRequest :: nat where "StatusBadRequest = 400"
definition StatusUnprocessableEntity :: nat where "StatusUnprocessableEntity = 422"

definition respond :: "field_error list \<Rightarrow> Response" where
  "respond allErrs =
     (if length allErrs > 0 then Errored StatusUnprocessableEntity (Aggregate allErrs)
      else ValidationResponse True [])"

definition Handle ::
  "('m, 'j, 'b, 'p, 'c) libraries \<Rightarrow> ('raw, 'm, 'j, 'b, 'a) decoder \<Rightarrow> 'm
     \<Rightarrow> 'raw AdmissionRequest \<Rightarrow> Response outcome" where
  "Handle lib dec zeroMeta req =
     (case decodeAdvancedCronJob dec req (zeroAdvancedCronJob zeroMeta) of
        (Some err, obj) \<Rightarrow> Returns (Errored StatusBadRequest (DecodeError err))
      | (None, obj) \<Rightarrow>
          if Operation req = Create
          then andThen (validateAdvancedCronJob lib obj) (\<lambda>allErrs. Returns (respond allErrs))
          else if Operation req = Update
          then (case decodeAdvancedCronJobFromRaw dec (OldObject req) (ResourceVersion req)
                       (zeroAdvancedCronJob zeroMeta) of
                  (Some err, oldObj) \<Rightarrow> Returns (Errored StatusBadRequest (DecodeError err))
                | (None, oldObj) \<Rightarrow>
                    andThen (validateAdvancedCronJobUpdate lib obj oldObj)
                      (\<lambda>allErrs. Returns (respond allErrs)))
          else Returns (ValidationResponse True []))"

subsection \<open>Specification-side notions\<close>

text \<open>
  The number of template variants that a spec populates, and the exclusivity errors that the
  spec prescribes for a count.
\<close>

definition populatedTemplates :: "('j, 'b) AdvancedCronJobSpec \<Rightarrow> nat" where
  "populatedTemplates spec =
     (if JobTemplate (Template spec) \<noteq> None then 1 else 0)
     + (if BroadcastJobTemplate (Template spec) \<noteq> None then 1 else 0)
     + (if ImageListPullJobTemplate (Template spec) \<noteq> None then 1 else 0)"

definition exclusivityErrors :: "nat \<Rightarrow> path \<Rightarrow> field_error list" where
  "exclusivityErrors n fldPath =
     (if n = 0 then [Forbidden (Child fldPath ''template'') mustHaveOneTemplate]
      else if 2 \<le> n then [Forbidden (Child fldPath ''template'') onlyOneTemplate]
      else [])"

text \<open>
  The errors of the per-kind validations of the populated variants, in the order job
  template, broadcast job template, image list pull job template.
\<close>

definition perKindErrors ::
  "('m, 'j, 'b, 'p, 'c) libraries \<Rightarrow> ('j, 'b) AdvancedCronJobSpec \<Rightarrow> path \<Rightarrow> field_error list" where
  "perKindErrors lib spec fldPath =
     (case JobTemplate (Template spec) of
        Some jt \<Rightarrow> validateJobTemplateSpec lib jt fldPath
      | None \<Rightarrow> [])
     @ (case BroadcastJobTemplate (Template spec) of
          Some bjt \<Rightarrow> validateBroadcastJobTemplateSpec lib bjt fldPath
        | None \<Rightarrow> [])
     @ (case ImageListPullJobTemplate (Template spec) of
          Some ilp \<Rightarrow>
            (if ConcurrencyPolicy spec = ReplaceConcurrent \<or> ConcurrencyPolicy spec = ForbidConcurrent
             then []
             else [Invalid (Child (Child fldPath ''spec'') ''concurrencyPolicy'')
                     (concurrencyPolicyInvalid (ConcurrencyPolicy spec))])
            @ validateImageListPullJobTemplateSpec (metav1_LabelSelectorAsSelector lib)
                (daemonutil_NormalizeImageRef lib) ilp
                (Child (Child fldPath ''template'') ''imageListPullJobTemplate'')
        | None \<Rightarrow> [])"

text \<open>
  An update changes mutable fields only when the new spec is the old spec with the fields
  \<open>schedule\<close>, \<open>concurrencyPolicy\<close>, \<open>successfulJobsHistoryLimit\<close>,
  \<open>failedJobsHistoryLimit\<close>, \<open>startingDeadlineSeconds\<close>, \<open>paused\<close> and \<open>timeZone\<close>
  replaced and, when the old spec has an image list pull job template, with that template
  replaced as well.
\<close>

definition withMutableFieldsOf ::
  "('j, 'b) AdvancedCronJobSpec \<Rightarrow> ('j, 'b) AdvancedCronJobSpec \<Rightarrow> ('j, 'b) AdvancedCronJobSpec" where
  "withMutableFieldsOf new old =
     old\<lparr>Schedule := Schedule new,
         ConcurrencyPolicy := ConcurrencyPolicy new,
         SuccessfulJobsHistoryLimit := SuccessfulJobsHistoryLimit new,
         FailedJobsHistoryLimit := FailedJobsHistoryLimit new,
         StartingDeadlineSeconds := StartingDeadlineSeconds new,
         Paused := Paused new,
         TimeZone := TimeZone new,
         Template :=
           (if ImageListPullJobTemplate (Template old) \<noteq> None
            then (Template old)\<lparr>ImageListPullJobTemplate :=
                                   ImageListPullJobTemplate (Template new)\<rparr>
            else Template old)\<rparr>"

definition changesMutableFieldsOnly ::
  "('j, 'b) AdvancedCronJobSpec \<Rightarrow> ('j, 'b) AdvancedCronJobSpec \<Rightarrow> bool" where
  "changesMutableFieldsOnly new old = (new = withMutableFieldsOf new old)"

subsection \<open>Concrete libraries and objects\<close>

text \<open>
  Instances of the libraries for concrete runs. The time zone database answers as
  \<open>time.LoadLocation\<close> does: the empty name, \<open>UTC\<close> and \<open>Local\<close> load without a
  lookup, any other name loads when the database has it. The parser panics on a schedule
  that starts with \<open>TZ=\<close> and has no space, as the cron parser's slice \<open>spec[eq+1 : i]\<close>
  does, and refuses the empty schedule. Object metadata is a name, a pod template the list
  of its container images.
\<close>

definition loadLocationIn :: "string list \<Rightarrow> string \<Rightarrow> string option" where
  "loadLocationIn zones name =
     (if name = [] \<or> name = ''UTC'' \<or> name = ''Local'' \<or> name \<in> set zones then None
      else Some (''unknown time zone '' @ name))"

definition exampleParse :: "string \<Rightarrow> string option outcome" where
  "exampleParse schedule =
     (if schedule = [] then Returns (Some ''empty spec string'')
      else if hasPrefix schedule ''TZ='' \<and> \<not> contains schedule '' ''
      then Panics ''runtime error: slice bounds out of range [:-1]''
      else Returns None)"

definition exampleLibraries ::
  "(string, string list, string list, string list, string list) libraries" where
  "exampleLibraries =
     \<lparr>cron_ParseStandard = exampleParse,
      time_LoadLocation = loadLocationIn [''Asia/Shanghai''],
      genericvalidation_ValidateObjectMeta = (\<lambda>meta fldPath. []),
      apivalidation_ValidateObjectMetaUpdate = (\<lambda>meta oldMeta fldPath. []),
      apivalidation_ValidateNonnegativeField =
        (\<lambda>v fldPath. if v < 0 then [Invalid fldPath ''must be greater than or equal to 0''] else []),
      apivalidation_ValidatePodTemplateSpec =
        (\<lambda>images fldPath.
           if images = []
           then [FieldError ErrorTypeRequired (fldPath @ [''spec'', ''containers'']) []]
           else []),
      corev1_Convert_PodTemplateSpec = Inr,
      metav1_LabelSelectorAsSelector = (\<lambda>sel. None),
      daemonutil_NormalizeImageRef =
        (\<lambda>img. if img = [] then Some ''invalid reference format'' else None),
      jobPodTemplate = (\<lambda>jt. jt),
      broadcastPodTemplate = (\<lambda>bjt. bjt)\<rparr>"

definition exampleImagePull :: "string list \<Rightarrow> CompletionPolicy \<Rightarrow> ImageListPullJobTemplateSpec" where
  "exampleImagePull images policy =
     \<lparr>ILPSpec = \<lparr>Images = images, Selector = None, PodSelector = None,
                 PullPolicy = Some \<lparr>TimeoutSeconds = Some 600\<rparr>,
                 CompletionPolicy = policy\<rparr>\<rparr>"

definition exampleBothSelectors :: ImageListPullJobTemplateSpec where
  "exampleBothSelectors =
     \<lparr>ILPSpec = \<lparr>Images = [],
                 Selector = Some \<lparr>Names = None,
                   NodeLabelSelector = \<lparr>MatchLabels = None, MatchExpressions = None\<rparr>\<rparr>,
                 PodSelector = Some
                   \<lparr>PodLabelSelector = \<lparr>MatchLabels = None, MatchExpressions = None\<rparr>\<rparr>,
                 PullPolicy = None,
                 CompletionPolicy = \<lparr>CompletionType = ''Always'', ActiveDeadlineSeconds = None,
                   TTLSecondsAfterFinished = None\<rparr>\<rparr>\<rparr>"

definition exampleSpec :: "(string list, string list) AdvancedCronJobSpec" where
  "exampleSpec =
     \<lparr>Schedule = ''0 8 * * *'', TimeZone = None, StartingDeadlineSeconds = None,
      ConcurrencyPolicy = ''Forbid'', Paused = False, SuccessfulJobsHistoryLimit = None,
      FailedJobsHistoryLimit = None,
      Template = \<lparr>JobTemplate = Some [''nginx:1.25''], BroadcastJobTemplate = None,
                  ImageListPullJobTemplate = None\<rparr>\<rparr>"

definition exampleDecoder ::
  "(string, string, string list, string list, unit) decoder" where
  "exampleDecoder =
     \<lparr>Decode_v1beta1 = (\<lambda>req. Inl ''there is no content to decode''),
      Decode_v1alpha1 = (\<lambda>req. Inl ''there is no content to decode''),
      DecodeRaw_v1beta1 = (\<lambda>raw. Inl ''there is no content to decode''),
      DecodeRaw_v1alpha1 = (\<lambda>raw. Inl ''there is no content to decode''),
      ConvertTo = (\<lambda>old. Inl ''not convertible'')\<rparr>"

section \<open>Properties\<close>

subsection \<open>The scans and loops\<close>

lemma hasPrefix_prefix: "hasPrefix s p \<longleftrightarrow> prefix p s"
  by (induction s p rule: hasPrefix.induct) auto

lemma contains_sublist: "contains s substr \<longleftrightarrow> sublist substr s"
  by (induction s) (auto simp: hasPrefix_prefix sublist_Cons_right)

lemma duplicateFrom_iff:
  "duplicateFrom images i j \<longleftrightarrow> (\<exists>k. j \<le> k \<and> k < length images \<and> images ! i = images ! k)"
proof (induction images i j rule: duplicateFrom.induct)
  case (1 images i j)
  show ?case
  proof (cases "j < length images")
    case False
    then show ?thesis by (subst duplicateFrom.simps) auto
  next
    case True
    show ?thesis
    proof (cases "images ! i = images ! j")
      case True
      with \<open>j < length images\<close> show ?thesis
        by (subst duplicateFrom.simps) auto
    next
      case False
      have "duplicateFrom images i j = duplicateFrom images i (j + 1)"
        using True False by (subst duplicateFrom.simps) simp
      also have "\<dots> \<longleftrightarrow> (\<exists>k. j + 1 \<le> k \<and> k < length images \<and> images ! i = images ! k)"
        using "1.IH"[OF True False] .
      also have "\<dots> \<longleftrightarrow> (\<exists>k. j \<le> k \<and> k < length images \<and> images ! i = images ! k)"
        using False by (metis Suc_eq_plus1 Suc_leD Suc_leI le_neq_implies_less)
      finally show ?thesis .
    qed
  qed
qed

lemma hasDuplicateFrom_iff:
  "hasDuplicateFrom images i \<longleftrightarrow>
     (\<exists>a b. i \<le> a \<and> a < b \<and> b < length images \<and> images ! a = images ! b)"
proof (induction images i rule: hasDuplicateFrom.induct)
  case (1 images i)
  show ?case
  proof (cases "i < length images")
    case False
    then show ?thesis by (subst hasDuplicateFrom.simps) auto
  next
    case True
    show ?thesis
    proof (cases "duplicateFrom images i (i + 1)")
      case dup: True
      then obtain k where "i + 1 \<le> k" "k < length images" "images ! i = images ! k"
        by (auto simp: duplicateFrom_iff)
      then have "\<exists>a b. i \<le> a \<and> a < b \<and> b < length images \<and> images ! a = images ! b"
        by (intro exI[of _ i] exI[of _ k]) auto
      with True dup show ?thesis by (subst hasDuplicateFrom.simps) simp
    next
      case nodup: False
      have "hasDuplicateFrom images i = hasDuplicateFrom images (i + 1)"
        using True nodup by (subst hasDuplicateFrom.simps) simp
      also have "\<dots> \<longleftrightarrow>
          (\<exists>a b. i + 1 \<le> a \<and> a < b \<and> b < length images \<and> images ! a = images ! b)"
        using "1.IH"[OF True nodup] .
      also have "\<dots> \<longleftrightarrow>
          (\<exists>a b. i \<le> a \<and> a < b \<and> b < length images \<and> images ! a = images ! b)"
      proof
        assume "\<exists>a b. i + 1 \<le> a \<and> a < b \<and> b < length images \<and> images ! a = images ! b"
        then show "\<exists>a b. i \<le> a \<and> a < b \<and> b < length images \<and> images ! a = images ! b"
          by (meson add_leD1)
      next
        assume "\<exists>a b. i \<le> a \<and> a < b \<and> b < length images \<and> images ! a = images ! b"
        then obtain a b where ab: "i \<le> a" "a < b" "b < length images" "images ! a = images ! b"
          by blast
        have "a \<noteq> i"
        proof
          assume "a = i"
          with ab have "duplicateFrom images i (i + 1)"
            by (auto simp: duplicateFrom_iff intro!: exI[of _ b])
          with nodup show False by simp
        qed
        with ab have "i + 1 \<le> a" by simp
        with ab show "\<exists>a b. i + 1 \<le> a \<and> a < b \<and> b < length images \<and> images ! a = images ! b"
          by blast
      qed
      finally show ?thesis .
    qed
  qed
qed

lemma hasDuplicateFrom_distinct: "hasDuplicateFrom images 0 \<longleftrightarrow> \<not> distinct images"
proof -
  have "\<not> distinct images \<longleftrightarrow>
          (\<exists>a b. a < b \<and> b < length images \<and> images ! a = images ! b)"
  proof
    assume "\<not> distinct images"
    then obtain a b where "a < length images" "b < length images" "a \<noteq> b"
        "images ! a = images ! b"
      by (auto simp: distinct_conv_nth)
    then have "(a < b \<and> b < length images \<and> images ! a = images ! b)
        \<or> (b < a \<and> a < length images \<and> images ! b = images ! a)"
      by auto
    then show "\<exists>a b. a < b \<and> b < length images \<and> images ! a = images ! b"
      by blast
  next
    assume "\<exists>a b. a < b \<and> b < length images \<and> images ! a = images ! b"
    then obtain a b where ab: "a < b" "b < length images" "images ! a = images ! b"
      by blast
    then have "a < length images" "a \<noteq> b" by auto
    with ab show "\<not> distinct images"
      unfolding distinct_conv_nth by blast
  qed
  then show ?thesis by (simp add: hasDuplicateFrom_iff)
qed

lemma firstInvalidImage_None:
  "firstInvalidImage n images = None \<longleftrightarrow> (\<forall>img \<in> set images. n img = None)"
  by (induction images) (auto split: option.splits)

lemma firstInvalidImage_Some:
  "firstInvalidImage n images = Some (img, err) \<longleftrightarrow>
     (\<exists>pre post. images = pre @ img # post \<and> (\<forall>x \<in> set pre. n x = None) \<and> n img = Some err)"
proof (induction images)
  case Nil
  then show ?case by simp
next
  case (Cons a images)
  show ?case
  proof (cases "n a")
    case None
    have "(\<exists>pre post. a # images = pre @ img # post \<and> (\<forall>x \<in> set pre. n x = None) \<and> n img = Some err)
          \<longleftrightarrow> (\<exists>pre post. images = pre @ img # post \<and> (\<forall>x \<in> set pre. n x = None) \<and> n img = Some err)"
    proof
      assume "\<exists>pre post. a # images = pre @ img # post \<and> (\<forall>x \<in> set pre. n x = None) \<and> n img = Some err"
      then obtain pre post where h: "a # images = pre @ img # post" "\<forall>x \<in> set pre. n x = None"
          "n img = Some err" by blast
      with None obtain pre' where "pre = a # pre'" by (cases pre) auto
      with h show "\<exists>pre post. images = pre @ img # post \<and> (\<forall>x \<in> set pre. n x = None) \<and> n img = Some err"
        by auto
    next
      assume "\<exists>pre post. images = pre @ img # post \<and> (\<forall>x \<in> set pre. n x = None) \<and> n img = Some err"
      then obtain pre post where h: "images = pre @ img # post" "\<forall>x \<in> set pre. n x = None"
          "n img = Some err" by blast
      with None show "\<exists>pre post. a # images = pre @ img # post \<and> (\<forall>x \<in> set pre. n x = None) \<and> n img = Some err"
        by (intro exI[of _ "a # pre"] exI[of _ post]) auto
    qed
    with None Cons show ?thesis by simp
  next
    case (Some e)
    have "(\<exists>pre post. a # images = pre @ img # post \<and> (\<forall>x \<in> set pre. n x = None) \<and> n img = Some err)
          \<longleftrightarrow> (a = img \<and> e = err)"
    proof
      assume "\<exists>pre post. a # images = pre @ img # post \<and> (\<forall>x \<in> set pre. n x = None) \<and> n img = Some err"
      then obtain pre post where h: "a # images = pre @ img # post" "\<forall>x \<in> set pre. n x = None"
          "n img = Some err" by blast
      with Some have "pre = []" by (cases pre) auto
      with h Some show "a = img \<and> e = err" by auto
    next
      assume "a = img \<and> e = err"
      with Some show "\<exists>pre post. a # images = pre @ img # post \<and> (\<forall>x \<in> set pre. n x = None) \<and> n img = Some err"
        by (intro exI[of _ "[]"] exI[of _ images]) auto
    qed
    with Some show ?thesis by auto
  qed
qed


lemma equalFold_nonempty: "equalFold tz (c # cs) \<Longrightarrow> tz \<noteq> []"
  by (cases tz) auto

lemma validateCronSchedule_returns:
  "validateCronSchedule parse s =
     Returns (case parse s of Returns e \<Rightarrow> e
              | Panics r \<Rightarrow> Some (''invalid cron schedule: '' @ r))"
  by (simp add: validateCronSchedule_def recovering_def split: outcome.splits)

lemmas path_defs = Child_def NewPath_def Root_def completionPolicyPath_def

lemma checkSelector_field:
  "checkSelector a s p = Some e \<Longrightarrow> errField e \<noteq> Child (Child p ''spec'') ''images''"
  by (auto simp: checkSelector_def orElse_def Invalid_def path_defs
      split: option.splits if_splits)

lemma checkPodSelector_field:
  "checkPodSelector a s p = Some e \<Longrightarrow> errField e \<noteq> Child (Child p ''spec'') ''images''"
  by (auto simp: checkPodSelector_def orElse_def Invalid_def path_defs
      split: option.splits if_splits)

lemma checkCompletionPolicy_field:
  "checkCompletionPolicy s p = Some e \<Longrightarrow> errField e \<noteq> Child (Child p ''spec'') ''images''"
  by (auto simp: checkCompletionPolicy_def orElse_def Invalid_def path_defs Let_def
      split: option.splits if_splits)

lemma checkImages_cases:
  "checkImages n s p =
     (if Images s = [] then Some (Invalid (Child (Child p ''spec'') ''images'') imageEmpty)
      else if length (Images s) > 255
      then Some (Invalid (Child (Child p ''spec'') ''images'') imageTooMany)
      else if \<not> distinct (Images s)
      then Some (Invalid (Child (Child p ''spec'') ''images'') imageDuplicate)
      else (case firstInvalidImage n (Images s) of
              Some (img, err) \<Rightarrow>
                Some (Invalid (Child (Child p ''spec'') ''images'') (imageInvalid img err))
            | None \<Rightarrow> None))"
  by (simp add: checkImages_def hasDuplicateFrom_distinct)

lemma validate_after_selectors:
  "checkSelector a (ILPSpec t) p = None \<Longrightarrow> checkPodSelector a (ILPSpec t) p = None \<Longrightarrow>
   validateImageListPullJobTemplateSpec a n t p =
     (case checkImages n (ILPSpec t) p of
        Some e \<Rightarrow> [e]
      | None \<Rightarrow> (case checkCompletionPolicy (ILPSpec t) p of Some e \<Rightarrow> [e] | None \<Rightarrow> []))"
  by (simp add: validateImageListPullJobTemplateSpec_def orElse_def split: option.splits)

lemma validate_singleton:
  "validateImageListPullJobTemplateSpec a n t p = [] \<or>
   (\<exists>e. validateImageListPullJobTemplateSpec a n t p = [e])"
  by (simp add: validateImageListPullJobTemplateSpec_def split: option.splits)

subsection \<open>Image list checks\<close>

text \<open>
  C6 (as amended). For every template that the selector and pod selector blocks let
  through, the image list checks run in the order empty, more than 255 entries, repeated
  entry, entry that does not normalise, and the first tier that the list violates gives the
  whole result, as exactly one error: the empty list its error, a list of more than 255
  entries its error, a list of at most 255 entries with a repeated entry the duplicate
  error, and a duplicate-free list of at most 255 entries the error of its first entry that
  does not normalise. For every template, whatever its selectors, the validation yields at
  most one error at the image list, and a non-empty, duplicate-free list of at most 255
  entries that all normalise yields no error at the image list.
\<close>

theorem image_list_tiers:
  "length (filter (\<lambda>e. errField e = Child (Child p ''spec'') ''images'')
             (validateImageListPullJobTemplateSpec a n t p)) \<le> 1
   \<and> (checkSelector a (ILPSpec t) p = None \<and> checkPodSelector a (ILPSpec t) p = None \<longrightarrow>
        (Images (ILPSpec t) = [] \<longrightarrow>
           validateImageListPullJobTemplateSpec a n t p
             = [Invalid (Child (Child p ''spec'') ''images'') imageEmpty])
      \<and> (length (Images (ILPSpec t)) > 255 \<longrightarrow>
           validateImageListPullJobTemplateSpec a n t p
             = [Invalid (Child (Child p ''spec'') ''images'') imageTooMany])
      \<and> (Images (ILPSpec t) \<noteq> [] \<and> length (Images (ILPSpec t)) \<le> 255
           \<and> \<not> distinct (Images (ILPSpec t)) \<longrightarrow>
           validateImageListPullJobTemplateSpec a n t p
             = [Invalid (Child (Child p ''spec'') ''images'') imageDuplicate])
      \<and> (\<forall>pre img post err.
           Images (ILPSpec t) = pre @ img # post \<and> length (Images (ILPSpec t)) \<le> 255
           \<and> distinct (Images (ILPSpec t))
           \<and> (\<forall>x \<in> set pre. n x = None) \<and> n img = Some err \<longrightarrow>
           validateImageListPullJobTemplateSpec a n t p
             = [Invalid (Child (Child p ''spec'') ''images'') (imageInvalid img err)]))
   \<and> (Images (ILPSpec t) \<noteq> [] \<and> length (Images (ILPSpec t)) \<le> 255
        \<and> distinct (Images (ILPSpec t)) \<and> (\<forall>x \<in> set (Images (ILPSpec t)). n x = None) \<longrightarrow>
        filter (\<lambda>e. errField e = Child (Child p ''spec'') ''images'')
          (validateImageListPullJobTemplateSpec a n t p) = [])"
proof (intro conjI)
  show "length (filter (\<lambda>e. errField e = Child (Child p ''spec'') ''images'')
             (validateImageListPullJobTemplateSpec a n t p)) \<le> 1"
    using validate_singleton[of a n t p] by auto
next
  show "checkSelector a (ILPSpec t) p = None \<and> checkPodSelector a (ILPSpec t) p = None \<longrightarrow>
        (Images (ILPSpec t) = [] \<longrightarrow>
           validateImageListPullJobTemplateSpec a n t p
             = [Invalid (Child (Child p ''spec'') ''images'') imageEmpty])
      \<and> (length (Images (ILPSpec t)) > 255 \<longrightarrow>
           validateImageListPullJobTemplateSpec a n t p
             = [Invalid (Child (Child p ''spec'') ''images'') imageTooMany])
      \<and> (Images (ILPSpec t) \<noteq> [] \<and> length (Images (ILPSpec t)) \<le> 255
           \<and> \<not> distinct (Images (ILPSpec t)) \<longrightarrow>
           validateImageListPullJobTemplateSpec a n t p
             = [Invalid (Child (Child p ''spec'') ''images'') imageDuplicate])
      \<and> (\<forall>pre img post err.
           Images (ILPSpec t) = pre @ img # post \<and> length (Images (ILPSpec t)) \<le> 255
           \<and> distinct (Images (ILPSpec t))
           \<and> (\<forall>x \<in> set pre. n x = None) \<and> n img = Some err \<longrightarrow>
           validateImageListPullJobTemplateSpec a n t p
             = [Invalid (Child (Child p ''spec'') ''images'') (imageInvalid img err)])"
  proof (intro impI, elim conjE)
    assume sel: "checkSelector a (ILPSpec t) p = None" "checkPodSelector a (ILPSpec t) p = None"
    note v = validate_after_selectors[OF sel, of n]
    have inv: "firstInvalidImage n (Images (ILPSpec t)) = Some (img, err)"
      if "Images (ILPSpec t) = pre @ img # post" "\<forall>x \<in> set pre. n x = None" "n img = Some err"
      for pre img post err
      using that unfolding firstInvalidImage_Some by blast
    show "(Images (ILPSpec t) = [] \<longrightarrow>
           validateImageListPullJobTemplateSpec a n t p
             = [Invalid (Child (Child p ''spec'') ''images'') imageEmpty])
      \<and> (length (Images (ILPSpec t)) > 255 \<longrightarrow>
           validateImageListPullJobTemplateSpec a n t p
             = [Invalid (Child (Child p ''spec'') ''images'') imageTooMany])
      \<and> (Images (ILPSpec t) \<noteq> [] \<and> length (Images (ILPSpec t)) \<le> 255
           \<and> \<not> distinct (Images (ILPSpec t)) \<longrightarrow>
           validateImageListPullJobTemplateSpec a n t p
             = [Invalid (Child (Child p ''spec'') ''images'') imageDuplicate])
      \<and> (\<forall>pre img post err.
           Images (ILPSpec t) = pre @ img # post \<and> length (Images (ILPSpec t)) \<le> 255
           \<and> distinct (Images (ILPSpec t))
           \<and> (\<forall>x \<in> set pre. n x = None) \<and> n img = Some err \<longrightarrow>
           validateImageListPullJobTemplateSpec a n t p
             = [Invalid (Child (Child p ''spec'') ''images'') (imageInvalid img err)])"
      using inv by (auto simp: v checkImages_cases)
  qed
next
  show "Images (ILPSpec t) \<noteq> [] \<and> length (Images (ILPSpec t)) \<le> 255
        \<and> distinct (Images (ILPSpec t)) \<and> (\<forall>x \<in> set (Images (ILPSpec t)). n x = None) \<longrightarrow>
        filter (\<lambda>e. errField e = Child (Child p ''spec'') ''images'')
          (validateImageListPullJobTemplateSpec a n t p) = []"
  proof (intro impI, elim conjE)
    assume good: "Images (ILPSpec t) \<noteq> []" "length (Images (ILPSpec t)) \<le> 255"
      "distinct (Images (ILPSpec t))" "\<forall>x \<in> set (Images (ILPSpec t)). n x = None"
    then have "firstInvalidImage n (Images (ILPSpec t)) = None"
      by (simp add: firstInvalidImage_None)
    with good have "checkImages n (ILPSpec t) p = None"
      by (simp add: checkImages_cases)
    then show "filter (\<lambda>e. errField e = Child (Child p ''spec'') ''images'')
          (validateImageListPullJobTemplateSpec a n t p) = []"
      using checkSelector_field[of a "ILPSpec t" p] checkPodSelector_field[of a "ILPSpec t" p]
        checkCompletionPolicy_field[of "ILPSpec t" p]
      by (auto simp: validateImageListPullJobTemplateSpec_def orElse_def split: option.splits)
  qed
qed

theorem image_list_tiers_witness:
  "validateImageListPullJobTemplateSpec (\<lambda>sel. None) (daemonutil_NormalizeImageRef exampleLibraries)
     (exampleImagePull [] \<lparr>CompletionType = ''Always'', ActiveDeadlineSeconds = None,
        TTLSecondsAfterFinished = None\<rparr>) [''spec'']
     = [Invalid [''spec'', ''spec'', ''images''] imageEmpty]
   \<and> validateImageListPullJobTemplateSpec (\<lambda>sel. None) (daemonutil_NormalizeImageRef exampleLibraries)
     (exampleImagePull (replicate 256 ''nginx'') \<lparr>CompletionType = ''Always'',
        ActiveDeadlineSeconds = None, TTLSecondsAfterFinished = None\<rparr>) [''spec'']
     = [Invalid [''spec'', ''spec'', ''images''] imageTooMany]
   \<and> validateImageListPullJobTemplateSpec (\<lambda>sel. None) (daemonutil_NormalizeImageRef exampleLibraries)
     (exampleImagePull [''nginx'', ''nginx''] \<lparr>CompletionType = ''Always'',
        ActiveDeadlineSeconds = None, TTLSecondsAfterFinished = None\<rparr>) [''spec'']
     = [Invalid [''spec'', ''spec'', ''images''] imageDuplicate]
   \<and> validateImageListPullJobTemplateSpec (\<lambda>sel. None) (daemonutil_NormalizeImageRef exampleLibraries)
     (exampleImagePull [''nginx'', [], ''redis''] \<lparr>CompletionType = ''Always'',
        ActiveDeadlineSeconds = None, TTLSecondsAfterFinished = None\<rparr>) [''spec'']
     = [Invalid [''spec'', ''spec'', ''images''] (imageInvalid [] ''invalid reference format'')]
   \<and> filter (\<lambda>e. errField e = [''spec'', ''spec'', ''images''])
       (validateImageListPullJobTemplateSpec (\<lambda>sel. None)
          (daemonutil_NormalizeImageRef exampleLibraries)
          (exampleImagePull [''nginx'', ''redis''] \<lparr>CompletionType = ''Never'',
             ActiveDeadlineSeconds = None, TTLSecondsAfterFinished = None\<rparr>) [''spec'']) = []"
proof -
  let ?a = "\<lambda>sel :: LabelSelector. None :: string option"
  let ?n = "daemonutil_NormalizeImageRef exampleLibraries"
  let ?pol = "\<lparr>CompletionType = ''Always'', ActiveDeadlineSeconds = None,
        TTLSecondsAfterFinished = None\<rparr>"
  have sel: "checkSelector ?a (ILPSpec (exampleImagePull imgs pol)) [''spec''] = None
      \<and> checkPodSelector ?a (ILPSpec (exampleImagePull imgs pol)) [''spec''] = None" for imgs pol
    by (simp add: checkSelector_def checkPodSelector_def exampleImagePull_def)
  have imgs: "Images (ILPSpec (exampleImagePull imgs pol)) = imgs" for imgs pol
    by (simp add: exampleImagePull_def)
  have n: "?n [] = Some ''invalid reference format''" "\<And>x. x \<noteq> [] \<Longrightarrow> ?n x = None"
    by (simp_all add: exampleLibraries_def)
  show ?thesis
    using image_list_tiers[of "[''spec'']" ?a ?n "exampleImagePull [] ?pol"]
      image_list_tiers[of "[''spec'']" ?a ?n "exampleImagePull (replicate 256 ''nginx'') ?pol"]
      image_list_tiers[of "[''spec'']" ?a ?n "exampleImagePull [''nginx'', ''nginx''] ?pol"]
      image_list_tiers[of "[''spec'']" ?a ?n "exampleImagePull [''nginx'', [], ''redis''] ?pol",
        THEN conjunct2, THEN conjunct1, THEN mp, OF sel, THEN conjunct2, THEN conjunct2,
        THEN conjunct2, THEN spec, THEN spec, THEN spec, THEN spec,
        of "[''nginx'']" "[]" "[''redis'']" "''invalid reference format''"]
      image_list_tiers[of "[''spec'']" ?a ?n "exampleImagePull [''nginx'', ''redis'']
          \<lparr>CompletionType = ''Never'', ActiveDeadlineSeconds = None,
            TTLSecondsAfterFinished = None\<rparr>"]
    by (simp add: sel imgs n Child_def)
qed

text \<open>
  A template with an empty image list whose selector and pod selector are both set: the
  validation returns the error of the selector conflict, and no error of the image list.
\<close>

theorem selector_conflict_reported_first:
  "Images (ILPSpec exampleBothSelectors) = []
   \<and> validateImageListPullJobTemplateSpec (\<lambda>sel. None) (\<lambda>img. None) exampleBothSelectors
       [''spec'', ''template'', ''imageListPullJobTemplate'']
       = [Invalid [''spec'', ''template'', ''imageListPullJobTemplate'', ''spec'']
            ''can not set both selector and podSelector'']
   \<and> validateImageListPullJobTemplateSpec (\<lambda>sel. None) (\<lambda>img. None) exampleBothSelectors
       [''spec'', ''template'', ''imageListPullJobTemplate'']
       \<noteq> [Invalid [''spec'', ''template'', ''imageListPullJobTemplate'', ''spec'', ''images'']
            imageEmpty]"
  by (simp add: validateImageListPullJobTemplateSpec_def orElse_def checkSelector_def
      checkPodSelector_def exampleBothSelectors_def Invalid_def Child_def)

subsection \<open>Formatting\<close>

text \<open>
  C9. The formatter returns the schedule as it is when the schedule contains \<open>TZ\<close> or
  the time zone is nil. When the schedule does not contain \<open>TZ\<close> and the time zone is set,
  it returns \<open>TZ=<zone> <schedule>\<close> when the zone loads, and the schedule as it is when
  the zone does not load.
\<close>

theorem formatSchedule_cases:
  "(sublist ''TZ'' (Schedule (Spec acj)) \<or> TimeZone (Spec acj) = None
      \<longrightarrow> formatSchedule load acj = Schedule (Spec acj))
   \<and> (\<forall>tz. \<not> sublist ''TZ'' (Schedule (Spec acj)) \<and> TimeZone (Spec acj) = Some tz
         \<and> load tz = None
      \<longrightarrow> formatSchedule load acj = ''TZ='' @ tz @ '' '' @ Schedule (Spec acj))
   \<and> (\<forall>tz err. \<not> sublist ''TZ'' (Schedule (Spec acj)) \<and> TimeZone (Spec acj) = Some tz
         \<and> load tz = Some err
      \<longrightarrow> formatSchedule load acj = Schedule (Spec acj))"
  by (auto simp: formatSchedule_def contains_sublist split: option.splits)

theorem formatSchedule_cases_witness:
  "formatSchedule (loadLocationIn [''Asia/Shanghai''])
     \<lparr>ObjectMeta = ''job'', Spec = exampleSpec\<lparr>TimeZone := Some ''Asia/Shanghai''\<rparr>\<rparr>
     = ''TZ=Asia/Shanghai 0 8 * * *''
   \<and> formatSchedule (loadLocationIn [''Asia/Shanghai''])
     \<lparr>ObjectMeta = ''job'', Spec = exampleSpec\<lparr>TimeZone := Some ''Mars/Olympus''\<rparr>\<rparr>
     = ''0 8 * * *''
   \<and> formatSchedule (loadLocationIn [''Asia/Shanghai''])
     \<lparr>ObjectMeta = ''job'', Spec = exampleSpec\<lparr>Schedule := ''CRON_TZ=UTC 0 8 * * *'',
        TimeZone := Some ''Asia/Shanghai''\<rparr>\<rparr>
     = ''CRON_TZ=UTC 0 8 * * *''
   \<and> formatSchedule (loadLocationIn [''Asia/Shanghai''])
     \<lparr>ObjectMeta = ''job'', Spec = exampleSpec\<rparr> = ''0 8 * * *''"
proof -
  let ?load = "loadLocationIn [''Asia/Shanghai'']"
  have no: "\<not> sublist ''TZ'' ''0 8 * * *''"
    unfolding contains_sublist[symmetric] by simp
  have yes: "sublist ''TZ'' ''CRON_TZ=UTC 0 8 * * *''"
    unfolding contains_sublist[symmetric] by simp
  show ?thesis
    using formatSchedule_cases[of "\<lparr>ObjectMeta = ''job'', Spec = exampleSpec\<lparr>TimeZone := Some ''Asia/Shanghai''\<rparr>\<rparr>" ?load]
      formatSchedule_cases[of "\<lparr>ObjectMeta = ''job'', Spec = exampleSpec\<lparr>TimeZone := Some ''Mars/Olympus''\<rparr>\<rparr>" ?load]
      formatSchedule_cases[of "\<lparr>ObjectMeta = ''job'', Spec = exampleSpec\<lparr>Schedule := ''CRON_TZ=UTC 0 8 * * *'',
        TimeZone := Some ''Asia/Shanghai''\<rparr>\<rparr>" ?load]
      formatSchedule_cases[of "\<lparr>ObjectMeta = ''job'', Spec = exampleSpec\<rparr>" ?load]
      no yes
    by (simp add: exampleSpec_def loadLocationIn_def)
qed

subsection \<open>Time zone\<close>

text \<open>
  C3 (as amended). For every time zone string that equals \<open>Local\<close> under ASCII case
  folding, the time zone validator returns the explicit-time-zone error first, followed by
  the load error when the string does not load from the time zone database: exactly one
  error when it loads, exactly two otherwise.
\<close>

theorem validateTimeZone_Local:
  assumes "equalFold tz ''Local''"
  shows "validateTimeZone load (Some tz) fldPath =
           Invalid fldPath explicitTimeZone
             # (case load tz of Some err \<Rightarrow> [Invalid fldPath err] | None \<Rightarrow> [])
         \<and> length (validateTimeZone load (Some tz) fldPath) = (if load tz = None then 1 else 2)"
  using assms equalFold_nonempty[OF assms]
  by (simp add: validateTimeZone_def split: option.splits)

theorem validateTimeZone_Local_witness:
  "validateTimeZone (loadLocationIn [''Asia/Shanghai'']) (Some ''Local'') [''spec'', ''timeZone'']
     = [Invalid [''spec'', ''timeZone''] explicitTimeZone]
   \<and> validateTimeZone (loadLocationIn [''Asia/Shanghai'']) (Some ''LOCAL'') [''spec'', ''timeZone'']
     = [Invalid [''spec'', ''timeZone''] explicitTimeZone,
        Invalid [''spec'', ''timeZone''] ''unknown time zone LOCAL'']"
proof -
  have "equalFold ''Local'' ''Local''" "equalFold ''LOCAL'' ''Local''"
    by (simp_all add: byteEqualFold_def foldsTo_def isUpper_def)
  from validateTimeZone_Local[OF this(1)] validateTimeZone_Local[OF this(2)]
  show ?thesis
    by (simp add: loadLocationIn_def)
qed

text \<open>
  The lower case spelling does not load from a database that answers as
  \<open>time.LoadLocation\<close> does, and the validator returns two errors for it.
\<close>

theorem validateTimeZone_local_two_errors:
  "equalFold ''local'' ''Local''
   \<and> validateTimeZone (loadLocationIn [''Asia/Shanghai'']) (Some ''local'') [''spec'', ''timeZone'']
       = [Invalid [''spec'', ''timeZone''] explicitTimeZone,
          Invalid [''spec'', ''timeZone''] ''unknown time zone local'']
   \<and> length (validateTimeZone (loadLocationIn [''Asia/Shanghai'']) (Some ''local'')
        [''spec'', ''timeZone'']) \<noteq> 1"
  by (simp add: validateTimeZone_def loadLocationIn_def byteEqualFold_def foldsTo_def isUpper_def)

subsection \<open>Schedule\<close>

text \<open>
  C4. When the schedule contains \<open>TZ\<close> and the time zone field is set, the schedule
  validator returns exactly one ambiguity error, at \<open>schedule\<close> under its path; when the
  time zone field is nil or the schedule does not contain \<open>TZ\<close>, it returns none. The
  parser's own error text is taken not to be the ambiguity text.
\<close>

theorem schedule_ambiguity:
  assumes "\<forall>e. parse (Schedule spec) = Returns (Some e) \<longrightarrow> e \<noteq> ambiguousTimeZone"
  shows "\<exists>errs. validateAdvancedCronJobSpecSchedule parse spec fldPath = Returns errs
           \<and> count_list errs (Invalid (Child fldPath ''schedule'') ambiguousTimeZone)
               = (if sublist ''TZ'' (Schedule spec) \<and> TimeZone spec \<noteq> None then 1 else 0)"
  using assms
  by (auto simp: validateAdvancedCronJobSpecSchedule_def validateCronSchedule_returns andThen_def
        contains_sublist Invalid_def ambiguousTimeZone_def split: outcome.splits option.splits)

theorem schedule_ambiguity_witness:
  "(\<exists>errs. validateAdvancedCronJobSpecSchedule exampleParse
       (exampleSpec\<lparr>Schedule := ''TZ=UTC * * * * *'', TimeZone := Some ''UTC''\<rparr>) [''spec'']
       = Returns errs
     \<and> count_list errs (Invalid [''spec'', ''schedule''] ambiguousTimeZone) = 1)
   \<and> (\<exists>errs. validateAdvancedCronJobSpecSchedule exampleParse
       (exampleSpec\<lparr>Schedule := ''TZ=UTC * * * * *''\<rparr>) [''spec''] = Returns errs
     \<and> count_list errs (Invalid [''spec'', ''schedule''] ambiguousTimeZone) = 0)
   \<and> (\<exists>errs. validateAdvancedCronJobSpecSchedule exampleParse
       (exampleSpec\<lparr>TimeZone := Some ''UTC''\<rparr>) [''spec''] = Returns errs
     \<and> count_list errs (Invalid [''spec'', ''schedule''] ambiguousTimeZone) = 0)"
proof -
  have yes: "sublist ''TZ'' ''TZ=UTC * * * * *''"
    unfolding contains_sublist[symmetric] by simp
  have no: "\<not> sublist ''TZ'' ''0 8 * * *''"
    unfolding contains_sublist[symmetric] by simp
  have p: "exampleParse ''TZ=UTC * * * * *'' = Returns None" "exampleParse ''0 8 * * *'' = Returns None"
    by (simp_all add: exampleParse_def)
  show ?thesis
    using schedule_ambiguity[of exampleParse
        "exampleSpec\<lparr>Schedule := ''TZ=UTC * * * * *'', TimeZone := Some ''UTC''\<rparr>" "[''spec'']"]
      schedule_ambiguity[of exampleParse "exampleSpec\<lparr>Schedule := ''TZ=UTC * * * * *''\<rparr>" "[''spec'']"]
      schedule_ambiguity[of exampleParse "exampleSpec\<lparr>TimeZone := Some ''UTC''\<rparr>" "[''spec'']"]
      yes no p
    by (simp add: exampleSpec_def Child_def)
qed

text \<open>
  C7. The cron validation returns for every parser and every schedule: when the parser
  panics, the panic is turned into the error \<open>invalid cron schedule: \<dots>\<close>. The schedule
  validator then returns as well and reports that error at \<open>schedule\<close> under its path.
\<close>

theorem parser_panic_contained:
  "(\<exists>err. validateCronSchedule parse schedule = Returns err)
   \<and> (\<forall>r. parse schedule = Panics r \<longrightarrow>
         validateCronSchedule parse schedule
           = Returns (Some (''invalid cron schedule: '' @ r)))
   \<and> (\<exists>errs. validateAdvancedCronJobSpecSchedule parse spec fldPath = Returns errs
         \<and> (\<forall>r. parse (Schedule spec) = Panics r \<longrightarrow>
               Invalid (Child fldPath ''schedule'') (''invalid cron schedule: '' @ r) \<in> set errs))"
  by (auto simp: validateAdvancedCronJobSpecSchedule_def validateCronSchedule_returns andThen_def
        split: outcome.splits option.splits)

theorem parser_panic_contained_witness:
  "exampleParse ''TZ=UTC'' = Panics ''runtime error: slice bounds out of range [:-1]''
   \<and> validateCronSchedule exampleParse ''TZ=UTC''
       = Returns (Some ''invalid cron schedule: runtime error: slice bounds out of range [:-1]'')
   \<and> (\<exists>errs. validateAdvancedCronJobSpecSchedule exampleParse
         (exampleSpec\<lparr>Schedule := ''TZ=UTC''\<rparr>) [''spec''] = Returns errs
       \<and> Invalid [''spec'', ''schedule'']
            ''invalid cron schedule: runtime error: slice bounds out of range [:-1]'' \<in> set errs)"
proof -
  have p: "exampleParse ''TZ=UTC'' = Panics ''runtime error: slice bounds out of range [:-1]''"
    by (simp add: exampleParse_def)
  show ?thesis
    using parser_panic_contained[of exampleParse "''TZ=UTC''"
        "exampleSpec\<lparr>Schedule := ''TZ=UTC''\<rparr>" "[''spec'']"] p
    by (simp add: exampleSpec_def Child_def)
qed

subsection \<open>Completion policy\<close>

lemma validate_after_images:
  "checkSelector a (ILPSpec t) p = None \<Longrightarrow> checkPodSelector a (ILPSpec t) p = None \<Longrightarrow>
   checkImages n (ILPSpec t) p = None \<Longrightarrow>
   validateImageListPullJobTemplateSpec a n t p =
     (case checkCompletionPolicy (ILPSpec t) p of Some e \<Rightarrow> [e] | None \<Rightarrow> [])"
  by (simp add: validate_after_selectors)


lemma validate_member:
  "e \<in> set (validateImageListPullJobTemplateSpec a n t p) \<Longrightarrow>
   checkSelector a (ILPSpec t) p = Some e \<or> checkPodSelector a (ILPSpec t) p = Some e
   \<or> checkImages n (ILPSpec t) p = Some e \<or> checkCompletionPolicy (ILPSpec t) p = Some e"
  by (auto simp: validateImageListPullJobTemplateSpec_def orElse_def split: option.splits)






lemma checkCompletionPolicy_Always:
  "CompletionType (CompletionPolicy s) = Always \<Longrightarrow>
   checkCompletionPolicy s p =
     orElse
       (case ActiveDeadlineSeconds (CompletionPolicy s) of
          Some d \<Rightarrow>
            if 86400 < sint d
            then Some (Invalid (completionPolicyPath p ''activeDeadlineSeconds'') (deadlineTooLarge d))
            else None
        | None \<Rightarrow> None)
    (orElse
       (case ActiveDeadlineSeconds (CompletionPolicy s) of
          Some d \<Rightarrow>
            (case PullPolicy s of
               Some pp \<Rightarrow>
                 (case TimeoutSeconds pp of
                    Some t \<Rightarrow>
                      if sint d < sint t
                      then Some (Invalid (completionPolicyPath p ''activeDeadlineSeconds'')
                             (deadlineBelowTimeout t))
                      else None
                  | None \<Rightarrow> None)
             | None \<Rightarrow> None)
        | None \<Rightarrow> None)
       (case TTLSecondsAfterFinished (CompletionPolicy s) of
          Some ttl \<Rightarrow>
            if 259200 < sint ttl
            then Some (Invalid (completionPolicyPath p ''ttlSecondsAfterFinished'') (ttlTooLarge ttl))
            else None
        | None \<Rightarrow> None))"
  by (simp add: checkCompletionPolicy_def Let_def MaxActiveDeadLineSeconds_def
      MaxTTLSecondsAfterFinished_def cong: option.case_cong)









subsection \<open>Deadline against timeout\<close>

text \<open>
  What the code does with a deadline and a timeout that are both set, once the earlier checks
  and the deadline bound have passed: it reports the deadline exactly when the timeout is
  greater than the deadline.
\<close>

lemma deadline_timeout_rule:
  assumes "checkSelector a (ILPSpec t) p = None" "checkPodSelector a (ILPSpec t) p = None"
    "checkImages n (ILPSpec t) p = None"
    and "CompletionType (CompletionPolicy (ILPSpec t)) = Always"
    and "ActiveDeadlineSeconds (CompletionPolicy (ILPSpec t)) = Some d" "sint d \<le> 86400"
    and "PullPolicy (ILPSpec t) = Some pp" "TimeoutSeconds pp = Some timeout"
  shows "(\<exists>e \<in> set (validateImageListPullJobTemplateSpec a n t p).
            errField e = completionPolicyPath p ''activeDeadlineSeconds'')
         \<longleftrightarrow> sint d < sint timeout"
  using assms
  by (auto simp: validate_after_images checkCompletionPolicy_Always orElse_def Invalid_def
        completionPolicyPath_def Child_def split: option.splits)

text \<open>
  C2. A template whose deadline equals its timeout (both 600 seconds), valid otherwise: the
  validation returns no error, although the deadline does not strictly exceed the timeout.
\<close>

theorem deadline_equal_to_timeout_accepted:
  "validateImageListPullJobTemplateSpec (\<lambda>sel. None) (\<lambda>img. None)
     (exampleImagePull [''nginx:1.25''] \<lparr>CompletionType = ''Always'',
        ActiveDeadlineSeconds = Some 600, TTLSecondsAfterFinished = None\<rparr>)
     [''spec'', ''template'', ''imageListPullJobTemplate''] = []"
  by (simp add: validateImageListPullJobTemplateSpec_def orElse_def checkSelector_def
      checkPodSelector_def checkImages_cases checkCompletionPolicy_Always exampleImagePull_def
      Always_def)

subsection \<open>Template exclusivity\<close>

lemma validateImageListPullJobTemplateSpec_Invalid:
  "e \<in> set (validateImageListPullJobTemplateSpec a n t p) \<Longrightarrow> errType e = ErrorTypeInvalid"
proof -
  assume "e \<in> set (validateImageListPullJobTemplateSpec a n t p)"
  from validate_member[OF this] show ?thesis
  proof (elim disjE)
    assume "checkSelector a (ILPSpec t) p = Some e"
    then show ?thesis
      unfolding checkSelector_def orElse_def
      by (auto simp: Invalid_def split: option.splits if_splits)
  next
    assume "checkPodSelector a (ILPSpec t) p = Some e"
    then show ?thesis
      unfolding checkPodSelector_def
      by (auto simp: Invalid_def split: option.splits if_splits)
  next
    assume "checkImages n (ILPSpec t) p = Some e"
    then show ?thesis
      unfolding checkImages_cases
      by (auto simp: Invalid_def split: option.splits if_splits)
  next
    assume "checkCompletionPolicy (ILPSpec t) p = Some e"
    then show ?thesis
      unfolding checkCompletionPolicy_def orElse_def Let_def
      by (auto simp: Invalid_def split: option.splits if_splits)
  qed
qed

lemma validateJobTemplateSpec_member:
  "e \<in> set (validateJobTemplateSpec lib jt p) \<Longrightarrow>
   errType e = ErrorTypeInvalid \<or> (\<exists>c q. e \<in> set (apivalidation_ValidatePodTemplateSpec lib c q))"
  by (auto simp: validateJobTemplateSpec_def convertPodTemplateSpec_def Invalid_def
        split: sum.splits)

lemma validateBroadcastJobTemplateSpec_member:
  "e \<in> set (validateBroadcastJobTemplateSpec lib bjt p) \<Longrightarrow>
   errType e = ErrorTypeInvalid \<or> (\<exists>c q. e \<in> set (apivalidation_ValidatePodTemplateSpec lib c q))"
  by (auto simp: validateBroadcastJobTemplateSpec_def convertPodTemplateSpec_def Invalid_def
        split: sum.splits)

lemma perKindErrors_member:
  assumes "e \<in> set (perKindErrors lib spec p)"
  shows "errType e = ErrorTypeInvalid
         \<or> (\<exists>c q. e \<in> set (apivalidation_ValidatePodTemplateSpec lib c q))"
  using assms unfolding perKindErrors_def
  by (auto split: option.splits if_splits simp: Invalid_def
        dest: validateJobTemplateSpec_member validateBroadcastJobTemplateSpec_member
          validateImageListPullJobTemplateSpec_Invalid)

lemma validateAdvancedCronJobSpecTemplate_split:
  "validateAdvancedCronJobSpecTemplate lib spec fldPath =
     perKindErrors lib spec fldPath @ exclusivityErrors (populatedTemplates spec) fldPath"
  by (cases "JobTemplate (Template spec)"; cases "BroadcastJobTemplate (Template spec)";
      cases "ImageListPullJobTemplate (Template spec)")
    (simp_all add: validateAdvancedCronJobSpecTemplate_def perKindErrors_def
      exclusivityErrors_def populatedTemplates_def)

text \<open>
  C5. The template validator counts the populated variants among the job template, the
  broadcast job template and the image list pull job template. Its result is the errors of
  the per-kind validations followed by the exclusivity errors of the count: with no variant
  the error that one must be supplied (and nothing else), with two or more the error that
  only one may be supplied, with exactly one no exclusivity error. The exclusivity part
  depends on the count alone, whatever the per-kind validations return. When the pod
  template validator does not itself return a forbidden error, each exclusivity error occurs
  in the result once or not at all, by the count.
\<close>

theorem template_exclusivity:
  "validateAdvancedCronJobSpecTemplate lib spec fldPath
     = perKindErrors lib spec fldPath @ exclusivityErrors (populatedTemplates spec) fldPath
   \<and> (populatedTemplates spec = 0 \<longrightarrow>
        validateAdvancedCronJobSpecTemplate lib spec fldPath
          = [Forbidden (Child fldPath ''template'') mustHaveOneTemplate])
   \<and> (2 \<le> populatedTemplates spec \<longrightarrow>
        validateAdvancedCronJobSpecTemplate lib spec fldPath
          = perKindErrors lib spec fldPath
            @ [Forbidden (Child fldPath ''template'') onlyOneTemplate])
   \<and> (populatedTemplates spec = 1 \<longrightarrow>
        validateAdvancedCronJobSpecTemplate lib spec fldPath = perKindErrors lib spec fldPath)
   \<and> ((\<forall>c q. \<forall>e \<in> set (apivalidation_ValidatePodTemplateSpec lib c q).
          errType e \<noteq> ErrorTypeForbidden) \<longrightarrow>
        count_list (validateAdvancedCronJobSpecTemplate lib spec fldPath)
            (Forbidden (Child fldPath ''template'') mustHaveOneTemplate)
          = (if populatedTemplates spec = 0 then 1 else 0)
        \<and> count_list (validateAdvancedCronJobSpecTemplate lib spec fldPath)
            (Forbidden (Child fldPath ''template'') onlyOneTemplate)
          = (if 2 \<le> populatedTemplates spec then 1 else 0))"
proof (intro conjI impI)
  show "validateAdvancedCronJobSpecTemplate lib spec fldPath
     = perKindErrors lib spec fldPath @ exclusivityErrors (populatedTemplates spec) fldPath"
    by (rule validateAdvancedCronJobSpecTemplate_split)
next
  assume "populatedTemplates spec = 0"
  then show "validateAdvancedCronJobSpecTemplate lib spec fldPath
          = [Forbidden (Child fldPath ''template'') mustHaveOneTemplate]"
    by (simp add: validateAdvancedCronJobSpecTemplate_split exclusivityErrors_def
        populatedTemplates_def perKindErrors_def split: if_splits)
next
  assume "2 \<le> populatedTemplates spec"
  then show "validateAdvancedCronJobSpecTemplate lib spec fldPath
          = perKindErrors lib spec fldPath @ [Forbidden (Child fldPath ''template'') onlyOneTemplate]"
    by (simp add: validateAdvancedCronJobSpecTemplate_split exclusivityErrors_def)
next
  assume "populatedTemplates spec = 1"
  then show "validateAdvancedCronJobSpecTemplate lib spec fldPath = perKindErrors lib spec fldPath"
    by (simp add: validateAdvancedCronJobSpecTemplate_split exclusivityErrors_def)
next
  assume lib: "\<forall>c q. \<forall>e \<in> set (apivalidation_ValidatePodTemplateSpec lib c q).
          errType e \<noteq> ErrorTypeForbidden"
  have none: "Forbidden q msg \<notin> set (perKindErrors lib spec fldPath)" for q msg
  proof
    assume "Forbidden q msg \<in> set (perKindErrors lib spec fldPath)"
    from perKindErrors_member[OF this] lib show False
      by (fastforce simp: Forbidden_def)
  qed
  have differ: "mustHaveOneTemplate \<noteq> onlyOneTemplate"
    by (simp add: mustHaveOneTemplate_def onlyOneTemplate_def)
  show "count_list (validateAdvancedCronJobSpecTemplate lib spec fldPath)
            (Forbidden (Child fldPath ''template'') mustHaveOneTemplate)
          = (if populatedTemplates spec = 0 then 1 else 0)"
    using none[of "Child fldPath ''template''" mustHaveOneTemplate] differ
    by (simp add: validateAdvancedCronJobSpecTemplate_split exclusivityErrors_def Forbidden_def)
  show "count_list (validateAdvancedCronJobSpecTemplate lib spec fldPath)
            (Forbidden (Child fldPath ''template'') onlyOneTemplate)
          = (if 2 \<le> populatedTemplates spec then 1 else 0)"
    using none[of "Child fldPath ''template''" onlyOneTemplate] differ
    by (simp add: validateAdvancedCronJobSpecTemplate_split exclusivityErrors_def Forbidden_def)
qed

theorem template_exclusivity_witness:
  "validateAdvancedCronJobSpecTemplate exampleLibraries
     (exampleSpec\<lparr>Template := \<lparr>JobTemplate = None, BroadcastJobTemplate = None,
        ImageListPullJobTemplate = None\<rparr>\<rparr>) [''spec'']
     = [Forbidden [''spec'', ''template''] mustHaveOneTemplate]
   \<and> validateAdvancedCronJobSpecTemplate exampleLibraries
     (exampleSpec\<lparr>Template := \<lparr>JobTemplate = Some [''nginx:1.25''],
        BroadcastJobTemplate = Some [], ImageListPullJobTemplate = None\<rparr>\<rparr>) [''spec'']
     = [FieldError ErrorTypeRequired [''spec'', ''template'', ''spec'', ''containers''] [],
        Forbidden [''spec'', ''template''] onlyOneTemplate]
   \<and> validateAdvancedCronJobSpecTemplate exampleLibraries exampleSpec [''spec''] = []
   \<and> count_list (validateAdvancedCronJobSpecTemplate exampleLibraries
        (exampleSpec\<lparr>Template := \<lparr>JobTemplate = Some [''nginx:1.25''],
           BroadcastJobTemplate = Some [], ImageListPullJobTemplate = None\<rparr>\<rparr>) [''spec''])
       (Forbidden [''spec'', ''template''] onlyOneTemplate) = 1"
proof -
  let ?none = "exampleSpec\<lparr>Template := \<lparr>JobTemplate = None, BroadcastJobTemplate = None,
        ImageListPullJobTemplate = None\<rparr>\<rparr>"
  let ?two = "exampleSpec\<lparr>Template := \<lparr>JobTemplate = Some [''nginx:1.25''],
        BroadcastJobTemplate = Some [], ImageListPullJobTemplate = None\<rparr>\<rparr>"
  have n0: "populatedTemplates ?none = 0" and n2: "populatedTemplates ?two = 2"
    and n1: "populatedTemplates exampleSpec = 1"
    by (simp_all add: populatedTemplates_def exampleSpec_def)
  have lib: "\<forall>c q. \<forall>e \<in> set (apivalidation_ValidatePodTemplateSpec exampleLibraries c q).
      errType e \<noteq> ErrorTypeForbidden"
    by (simp add: exampleLibraries_def)
  have p2: "perKindErrors exampleLibraries ?two [''spec'']
      = [FieldError ErrorTypeRequired [''spec'', ''template'', ''spec'', ''containers''] []]"
    by (simp add: perKindErrors_def validateJobTemplateSpec_def validateBroadcastJobTemplateSpec_def
        convertPodTemplateSpec_def exampleLibraries_def exampleSpec_def Child_def)
  have p1: "perKindErrors exampleLibraries exampleSpec [''spec''] = []"
    by (simp add: perKindErrors_def validateJobTemplateSpec_def convertPodTemplateSpec_def
        exampleLibraries_def exampleSpec_def Child_def)
  note t0 = template_exclusivity[where spec = ?none and lib = exampleLibraries and fldPath = "[''spec'']",
      THEN conjunct2, THEN conjunct1]
  note t2 = template_exclusivity[where spec = ?two and lib = exampleLibraries and fldPath = "[''spec'']",
      THEN conjunct2, THEN conjunct2, THEN conjunct1]
  note t1 = template_exclusivity[where spec = exampleSpec and lib = exampleLibraries and fldPath = "[''spec'']",
      THEN conjunct2, THEN conjunct2, THEN conjunct2, THEN conjunct1]
  note c2 = template_exclusivity[where spec = ?two and lib = exampleLibraries and fldPath = "[''spec'']",
      THEN conjunct2, THEN conjunct2, THEN conjunct2, THEN conjunct2, THEN mp, OF lib,
      THEN conjunct2]
  from t0 n0 t2 n2 p2 t1 n1 p1 c2 show ?thesis
    by (simp add: Child_def)
qed

subsection \<open>The update guard\<close>

lemma validateAdvancedCronJobSpecSchedule_returns:
  "\<exists>errs. validateAdvancedCronJobSpecSchedule parse spec p = Returns errs
     \<and> (\<forall>e \<in> set errs. errType e = ErrorTypeInvalid)
     \<and> (Schedule spec = [] \<longrightarrow> errs \<noteq> [])"
  by (auto simp: validateAdvancedCronJobSpecSchedule_def validateCronSchedule_returns andThen_def
        Invalid_def split: outcome.splits option.splits)

lemma validateTimeZone_Invalid:
  "e \<in> set (validateTimeZone load tz p) \<Longrightarrow> errType e = ErrorTypeInvalid"
  by (auto simp: validateTimeZone_def Invalid_def split: option.splits if_splits)

lemma validateAdvancedCronJobSpec_returns:
  "\<exists>errs. validateAdvancedCronJobSpec lib spec p = Returns errs
     \<and> (Schedule spec = [] \<longrightarrow> errs \<noteq> [])
     \<and> (\<forall>e \<in> set errs.
           errType e = ErrorTypeInvalid
           \<or> (\<exists>c q. e \<in> set (apivalidation_ValidatePodTemplateSpec lib c q))
           \<or> (\<exists>v q. e \<in> set (apivalidation_ValidateNonnegativeField lib v q))
           \<or> e \<in> set (exclusivityErrors (populatedTemplates spec) p))"
proof -
  obtain s where s: "validateAdvancedCronJobSpecSchedule (cron_ParseStandard lib) spec p = Returns s"
      "\<forall>e \<in> set s. errType e = ErrorTypeInvalid" "Schedule spec = [] \<longrightarrow> s \<noteq> []"
    using validateAdvancedCronJobSpecSchedule_returns by blast
  then show ?thesis
    by (auto simp: validateAdvancedCronJobSpec_def andThen_def validateAdvancedCronJobSpecTemplate_split
          split: option.splits
          dest: perKindErrors_member validateTimeZone_Invalid)
qed

lemma guard_equality:
  "(Spec obj)\<lparr>Schedule := Schedule (Spec oldObj),
       ConcurrencyPolicy := ConcurrencyPolicy (Spec oldObj),
       SuccessfulJobsHistoryLimit := SuccessfulJobsHistoryLimit (Spec oldObj),
       FailedJobsHistoryLimit := FailedJobsHistoryLimit (Spec oldObj),
       StartingDeadlineSeconds := StartingDeadlineSeconds (Spec oldObj),
       Paused := Paused (Spec oldObj),
       TimeZone := TimeZone (Spec oldObj),
       Template := (case ImageListPullJobTemplate (Template (Spec oldObj)) of
                      Some ilp \<Rightarrow> (Template (Spec obj))\<lparr>ImageListPullJobTemplate := Some ilp\<rparr>
                    | None \<Rightarrow> Template (Spec obj))\<rparr> = Spec oldObj
   \<longleftrightarrow> changesMutableFieldsOnly (Spec obj) (Spec oldObj)"
proof -
  obtain a b c d e f g h where n: "Spec obj = \<lparr>Schedule = a, TimeZone = b,
      StartingDeadlineSeconds = c, ConcurrencyPolicy = d, Paused = e,
      SuccessfulJobsHistoryLimit = f, FailedJobsHistoryLimit = g, Template = h\<rparr>"
    by (cases "Spec obj")
  obtain a' b' c' d' e' f' g' h' where o: "Spec oldObj = \<lparr>Schedule = a', TimeZone = b',
      StartingDeadlineSeconds = c', ConcurrencyPolicy = d', Paused = e',
      SuccessfulJobsHistoryLimit = f', FailedJobsHistoryLimit = g', Template = h'\<rparr>"
    by (cases "Spec oldObj")
  obtain j k l where h: "h = \<lparr>JobTemplate = j, BroadcastJobTemplate = k,
      ImageListPullJobTemplate = l\<rparr>"
    by (cases h)
  obtain j' k' l' where h': "h' = \<lparr>JobTemplate = j', BroadcastJobTemplate = k',
      ImageListPullJobTemplate = l'\<rparr>"
    by (cases h')
  show ?thesis
    unfolding changesMutableFieldsOnly_def withMutableFieldsOf_def n o h h'
    by (cases l') auto
qed

lemma validateAdvancedCronJobUpdate_split:
  assumes "validateAdvancedCronJobSpec lib (Spec obj) (NewPath ''spec'') = Returns specErrs"
  shows "validateAdvancedCronJobUpdate lib obj oldObj =
     Returns (apivalidation_ValidateObjectMetaUpdate lib (ObjectMeta obj) (ObjectMeta oldObj)
                (NewPath ''metadata'')
              @ specErrs
              @ (if changesMutableFieldsOnly (Spec obj) (Spec oldObj) then []
                 else [Forbidden (NewPath ''spec'') updateForbidden]))"
proof -
  have "validateAdvancedCronJobUpdate lib obj oldObj =
     Returns (if (Spec obj)\<lparr>Schedule := Schedule (Spec oldObj),
       ConcurrencyPolicy := ConcurrencyPolicy (Spec oldObj),
       SuccessfulJobsHistoryLimit := SuccessfulJobsHistoryLimit (Spec oldObj),
       FailedJobsHistoryLimit := FailedJobsHistoryLimit (Spec oldObj),
       StartingDeadlineSeconds := StartingDeadlineSeconds (Spec oldObj),
       Paused := Paused (Spec oldObj),
       TimeZone := TimeZone (Spec oldObj),
       Template := (case ImageListPullJobTemplate (Template (Spec oldObj)) of
                      Some ilp \<Rightarrow> (Template (Spec obj))\<lparr>ImageListPullJobTemplate := Some ilp\<rparr>
                    | None \<Rightarrow> Template (Spec obj))\<rparr> \<noteq> Spec oldObj
       then apivalidation_ValidateObjectMetaUpdate lib (ObjectMeta obj) (ObjectMeta oldObj)
                (NewPath ''metadata'') @ specErrs @ [Forbidden (NewPath ''spec'') updateForbidden]
       else apivalidation_ValidateObjectMetaUpdate lib (ObjectMeta obj) (ObjectMeta oldObj)
                (NewPath ''metadata'') @ specErrs)"
    unfolding validateAdvancedCronJobUpdate_def assms andThen_def
    by (cases "ImageListPullJobTemplate (Template (Spec oldObj))") (simp_all add: Let_def)
  then show ?thesis
    unfolding guard_equality by simp
qed

text \<open>
  C1. The update validator returns the errors of the metadata update validation and of the
  spec validation, followed by exactly one forbidden-fields error when the new spec does not
  come from the old one by changing mutable fields only, and by nothing when it does. The
  mutable fields are \<open>schedule\<close>, \<open>concurrencyPolicy\<close>, \<open>successfulJobsHistoryLimit\<close>,
  \<open>failedJobsHistoryLimit\<close>, \<open>startingDeadlineSeconds\<close>, \<open>paused\<close>, \<open>timeZone\<close> and,
  only when the old object has an image list pull job template, that template. When the
  libraries do not themselves return the forbidden-fields error, it occurs in the result once
  or not at all accordingly. A change of \<open>paused\<close> alone is a change of mutable fields
  only; a change of the job template is not.
\<close>

theorem update_guard:
  "(\<exists>specErrs. validateAdvancedCronJobSpec lib (Spec obj) (NewPath ''spec'') = Returns specErrs
      \<and> validateAdvancedCronJobUpdate lib obj oldObj =
          Returns (apivalidation_ValidateObjectMetaUpdate lib (ObjectMeta obj) (ObjectMeta oldObj)
                     (NewPath ''metadata'')
                   @ specErrs
                   @ (if changesMutableFieldsOnly (Spec obj) (Spec oldObj) then []
                      else [Forbidden (NewPath ''spec'') updateForbidden])))
   \<and> ((\<forall>m m' q. Forbidden (NewPath ''spec'') updateForbidden
                    \<notin> set (apivalidation_ValidateObjectMetaUpdate lib m m' q))
        \<and> (\<forall>c q. Forbidden (NewPath ''spec'') updateForbidden
                    \<notin> set (apivalidation_ValidatePodTemplateSpec lib c q))
        \<and> (\<forall>v q. Forbidden (NewPath ''spec'') updateForbidden
                    \<notin> set (apivalidation_ValidateNonnegativeField lib v q)) \<longrightarrow>
        (\<exists>errs. validateAdvancedCronJobUpdate lib obj oldObj = Returns errs
           \<and> count_list errs (Forbidden (NewPath ''spec'') updateForbidden)
               = (if changesMutableFieldsOnly (Spec obj) (Spec oldObj) then 0 else 1)))
   \<and> changesMutableFieldsOnly ((Spec oldObj)\<lparr>Paused := paused\<rparr>) (Spec oldObj)
   \<and> (JobTemplate (Template (Spec obj)) \<noteq> JobTemplate (Template (Spec oldObj)) \<longrightarrow>
        \<not> changesMutableFieldsOnly (Spec obj) (Spec oldObj))"
proof (intro conjI impI)
  obtain specErrs where s: "validateAdvancedCronJobSpec lib (Spec obj) (NewPath ''spec'') = Returns specErrs"
    and members: "\<forall>e \<in> set specErrs.
           errType e = ErrorTypeInvalid
           \<or> (\<exists>c q. e \<in> set (apivalidation_ValidatePodTemplateSpec lib c q))
           \<or> (\<exists>v q. e \<in> set (apivalidation_ValidateNonnegativeField lib v q))
           \<or> e \<in> set (exclusivityErrors (populatedTemplates (Spec obj)) (NewPath ''spec''))"
    using validateAdvancedCronJobSpec_returns[of lib "Spec obj" "NewPath ''spec''"] by blast
  note split = validateAdvancedCronJobUpdate_split[OF s, of oldObj]
  from s split
  show "\<exists>specErrs. validateAdvancedCronJobSpec lib (Spec obj) (NewPath ''spec'') = Returns specErrs
      \<and> validateAdvancedCronJobUpdate lib obj oldObj =
          Returns (apivalidation_ValidateObjectMetaUpdate lib (ObjectMeta obj) (ObjectMeta oldObj)
                     (NewPath ''metadata'')
                   @ specErrs
                   @ (if changesMutableFieldsOnly (Spec obj) (Spec oldObj) then []
                      else [Forbidden (NewPath ''spec'') updateForbidden]))"
    by blast
  assume lib: "(\<forall>m m' q. Forbidden (NewPath ''spec'') updateForbidden
                    \<notin> set (apivalidation_ValidateObjectMetaUpdate lib m m' q))
        \<and> (\<forall>c q. Forbidden (NewPath ''spec'') updateForbidden
                    \<notin> set (apivalidation_ValidatePodTemplateSpec lib c q))
        \<and> (\<forall>v q. Forbidden (NewPath ''spec'') updateForbidden
                    \<notin> set (apivalidation_ValidateNonnegativeField lib v q))"
  have "Forbidden (NewPath ''spec'') updateForbidden \<notin> set specErrs"
  proof
    assume "Forbidden (NewPath ''spec'') updateForbidden \<in> set specErrs"
    with members lib
    have "Forbidden (NewPath ''spec'') updateForbidden
            \<in> set (exclusivityErrors (populatedTemplates (Spec obj)) (NewPath ''spec''))"
      by (fastforce simp: Forbidden_def)
    then show False
      by (simp add: exclusivityErrors_def Forbidden_def NewPath_def Child_def split: if_splits)
  qed
  with lib have "count_list (apivalidation_ValidateObjectMetaUpdate lib (ObjectMeta obj)
        (ObjectMeta oldObj) (NewPath ''metadata'') @ specErrs)
        (Forbidden (NewPath ''spec'') updateForbidden) = 0"
    by simp
  with split
  show "\<exists>errs. validateAdvancedCronJobUpdate lib obj oldObj = Returns errs
           \<and> count_list errs (Forbidden (NewPath ''spec'') updateForbidden)
               = (if changesMutableFieldsOnly (Spec obj) (Spec oldObj) then 0 else 1)"
    by simp
next
  show "changesMutableFieldsOnly ((Spec oldObj)\<lparr>Paused := paused\<rparr>) (Spec oldObj)"
    by (cases "Spec oldObj") (simp add: changesMutableFieldsOnly_def withMutableFieldsOf_def)
next
  assume differ: "JobTemplate (Template (Spec obj)) \<noteq> JobTemplate (Template (Spec oldObj))"
  have same: "JobTemplate (Template (withMutableFieldsOf (Spec obj) (Spec oldObj)))
      = JobTemplate (Template (Spec oldObj))"
    by (simp add: withMutableFieldsOf_def)
  show "\<not> changesMutableFieldsOnly (Spec obj) (Spec oldObj)"
  proof
    assume "changesMutableFieldsOnly (Spec obj) (Spec oldObj)"
    then have "Spec obj = withMutableFieldsOf (Spec obj) (Spec oldObj)"
      by (simp only: changesMutableFieldsOnly_def)
    from arg_cong[OF this, of "\<lambda>s. JobTemplate (Template s)"] same differ
    show False by simp
  qed
qed

lemma exampleSpec_valid:
  "Schedule spec = ''0 8 * * *'' \<Longrightarrow> TimeZone spec = None \<Longrightarrow>
   StartingDeadlineSeconds spec = None \<Longrightarrow> SuccessfulJobsHistoryLimit spec = None \<Longrightarrow>
   FailedJobsHistoryLimit spec = None \<Longrightarrow>
   validateAdvancedCronJobSpec exampleLibraries spec (NewPath ''spec'')
     = Returns (validateAdvancedCronJobSpecTemplate exampleLibraries spec (NewPath ''spec''))"
  by (simp add: validateAdvancedCronJobSpec_def validateAdvancedCronJobSpecSchedule_def
      validateCronSchedule_returns andThen_def validateTimeZone_def exampleLibraries_def
      exampleParse_def)

theorem update_guard_witness:
  "validateAdvancedCronJobUpdate exampleLibraries
     \<lparr>ObjectMeta = ''job'', Spec = exampleSpec\<lparr>Paused := True\<rparr>\<rparr>
     \<lparr>ObjectMeta = ''job'', Spec = exampleSpec\<rparr> = Returns []
   \<and> validateAdvancedCronJobUpdate exampleLibraries
     \<lparr>ObjectMeta = ''job'', Spec = exampleSpec\<lparr>Template :=
        \<lparr>JobTemplate = Some [''nginx:1.26''], BroadcastJobTemplate = None,
         ImageListPullJobTemplate = None\<rparr>\<rparr>\<rparr>
     \<lparr>ObjectMeta = ''job'', Spec = exampleSpec\<rparr>
     = Returns [Forbidden [''spec''] updateForbidden]
   \<and> (\<exists>errs. validateAdvancedCronJobUpdate exampleLibraries
         \<lparr>ObjectMeta = ''job'', Spec = exampleSpec\<lparr>Template :=
            \<lparr>JobTemplate = Some [''nginx:1.26''], BroadcastJobTemplate = None,
             ImageListPullJobTemplate = None\<rparr>\<rparr>\<rparr>
         \<lparr>ObjectMeta = ''job'', Spec = exampleSpec\<rparr> = Returns errs
       \<and> count_list errs (Forbidden [''spec''] updateForbidden) = 1)"
proof -
  let ?old = "\<lparr>ObjectMeta = ''job'', Spec = exampleSpec\<rparr>"
  let ?paused = "\<lparr>ObjectMeta = ''job'', Spec = exampleSpec\<lparr>Paused := True\<rparr>\<rparr>"
  let ?image = "\<lparr>ObjectMeta = ''job'', Spec = exampleSpec\<lparr>Template :=
        \<lparr>JobTemplate = Some [''nginx:1.26''], BroadcastJobTemplate = None,
         ImageListPullJobTemplate = None\<rparr>\<rparr>\<rparr>"
  have t: "validateAdvancedCronJobSpecTemplate exampleLibraries (Spec ?paused) (NewPath ''spec'') = []"
    "validateAdvancedCronJobSpecTemplate exampleLibraries (Spec ?image) (NewPath ''spec'') = []"
    by (simp_all add: validateAdvancedCronJobSpecTemplate_split perKindErrors_def
        validateJobTemplateSpec_def convertPodTemplateSpec_def exclusivityErrors_def
        populatedTemplates_def exampleLibraries_def exampleSpec_def)
  have v: "validateAdvancedCronJobSpec exampleLibraries (Spec ?paused) (NewPath ''spec'') = Returns []"
    "validateAdvancedCronJobSpec exampleLibraries (Spec ?image) (NewPath ''spec'') = Returns []"
    using exampleSpec_valid[of "Spec ?paused"] exampleSpec_valid[of "Spec ?image"] t
    by (simp_all add: exampleSpec_def)
  have lib: "(\<forall>m m' q. Forbidden (NewPath ''spec'') updateForbidden
                    \<notin> set (apivalidation_ValidateObjectMetaUpdate exampleLibraries m m' q))
        \<and> (\<forall>c q. Forbidden (NewPath ''spec'') updateForbidden
                    \<notin> set (apivalidation_ValidatePodTemplateSpec exampleLibraries c q))
        \<and> (\<forall>v q. Forbidden (NewPath ''spec'') updateForbidden
                    \<notin> set (apivalidation_ValidateNonnegativeField exampleLibraries v q))"
    by (simp add: exampleLibraries_def Forbidden_def Invalid_def)
  have c: "changesMutableFieldsOnly (Spec ?paused) (Spec ?old)"
    "\<not> changesMutableFieldsOnly (Spec ?image) (Spec ?old)"
    by (simp_all add: changesMutableFieldsOnly_def withMutableFieldsOf_def exampleSpec_def)
  have m: "apivalidation_ValidateObjectMetaUpdate exampleLibraries m m' q = []" for m m' q
    by (simp add: exampleLibraries_def)
  from update_guard[where lib = exampleLibraries and obj = ?paused and oldObj = ?old,
      THEN conjunct1] v(1) c(1) m
  have 1: "validateAdvancedCronJobUpdate exampleLibraries ?paused ?old = Returns []"
    by auto
  from update_guard[where lib = exampleLibraries and obj = ?image and oldObj = ?old,
      THEN conjunct1] v(2) c(2) m
  have 2: "validateAdvancedCronJobUpdate exampleLibraries ?image ?old
      = Returns [Forbidden [''spec''] updateForbidden]"
    by (auto simp: NewPath_def)
  from update_guard[where lib = exampleLibraries and obj = ?image and oldObj = ?old,
      THEN conjunct2, THEN conjunct1, THEN mp, OF lib] c(2)
  have 3: "\<exists>errs. validateAdvancedCronJobUpdate exampleLibraries ?image ?old = Returns errs
       \<and> count_list errs (Forbidden [''spec''] updateForbidden) = 1"
    by (simp add: NewPath_def)
  from 1 2 3 show ?thesis by blast
qed

subsection \<open>Unknown versions\<close>

lemma ObjectMeta_zero: "ObjectMeta (zeroAdvancedCronJob m) = m"
  by (simp add: zeroAdvancedCronJob_def)

text \<open>
  C10. For a request whose resource version is neither \<open>v1beta1\<close> nor \<open>v1alpha1\<close>, the
  decoding of the new object returns no error and leaves the object as it was, while the
  decoding of the old object fails with \<open>unsupported version\<close>. The handler therefore
  validates the zero-valued object on a create request, and answers with the validation
  errors of that object (status 422) instead of a bad request; on an update request it is
  the decoding of the old object that fails the request (status 400).
\<close>

theorem unknown_version_not_rejected:
  assumes "ResourceVersion req \<noteq> v1beta1_Version" and "ResourceVersion req \<noteq> v1alpha1_Version"
  shows "decodeAdvancedCronJob dec req obj = (None, obj)
   \<and> decodeAdvancedCronJobFromRaw dec raw (ResourceVersion req) obj
       = (Some (unsupportedVersion (ResourceVersion req)), obj)
   \<and> (Operation req = Create \<longrightarrow>
        (\<exists>errs. validateAdvancedCronJob lib (zeroAdvancedCronJob zeroMeta) = Returns errs
           \<and> errs \<noteq> []
           \<and> Handle lib dec zeroMeta req
               = Returns (Errored StatusUnprocessableEntity (Aggregate errs))))
   \<and> (Operation req = Update \<longrightarrow>
        Handle lib dec zeroMeta req
          = Returns (Errored StatusBadRequest
                      (DecodeError (unsupportedVersion (ResourceVersion req)))))"
proof (intro conjI impI)
  show d: "decodeAdvancedCronJob dec req obj = (None, obj)" for obj
    using assms by (simp add: decodeAdvancedCronJob_def)
  show r: "decodeAdvancedCronJobFromRaw dec raw (ResourceVersion req) obj
       = (Some (unsupportedVersion (ResourceVersion req)), obj)" for raw obj
    using assms by (simp add: decodeAdvancedCronJobFromRaw_def)
  {
    assume create: "Operation req = Create"
    obtain specErrs where s: "validateAdvancedCronJobSpec lib (Spec (zeroAdvancedCronJob zeroMeta))
        (NewPath ''spec'') = Returns specErrs" "specErrs \<noteq> []"
      using validateAdvancedCronJobSpec_returns[of lib "Spec (zeroAdvancedCronJob zeroMeta)"
          "NewPath ''spec''"]
      by (auto simp: zeroAdvancedCronJob_def)
    define errs where "errs = genericvalidation_ValidateObjectMeta lib zeroMeta
        (NewPath ''metadata'') @ specErrs"
    have v: "validateAdvancedCronJob lib (zeroAdvancedCronJob zeroMeta) = Returns errs"
      by (simp add: validateAdvancedCronJob_def s andThen_def errs_def ObjectMeta_zero)
    moreover have "errs \<noteq> []" using s by (simp add: errs_def)
    moreover have "Handle lib dec zeroMeta req
               = Returns (Errored StatusUnprocessableEntity (Aggregate errs))"
      using create \<open>errs \<noteq> []\<close> by (simp add: Handle_def d v andThen_def respond_def)
    ultimately show "\<exists>errs. validateAdvancedCronJob lib (zeroAdvancedCronJob zeroMeta) = Returns errs
           \<and> errs \<noteq> []
           \<and> Handle lib dec zeroMeta req
               = Returns (Errored StatusUnprocessableEntity (Aggregate errs))"
      by blast
  }
  {
    assume "Operation req = Update"
    then show "Handle lib dec zeroMeta req
          = Returns (Errored StatusBadRequest
                      (DecodeError (unsupportedVersion (ResourceVersion req))))"
      by (simp add: Handle_def d r Create_def Update_def)
  }
qed

theorem unknown_version_not_rejected_witness:
  "decodeAdvancedCronJob exampleDecoder
     \<lparr>Operation = Create, ResourceVersion = ''v1'', Object = ''{}'', OldObject = []\<rparr>
     (zeroAdvancedCronJob []) = (None, zeroAdvancedCronJob [])
   \<and> decodeAdvancedCronJobFromRaw exampleDecoder ''{}'' ''v1'' (zeroAdvancedCronJob [])
       = (Some ''unsupported version: v1'', zeroAdvancedCronJob [])
   \<and> Handle exampleLibraries exampleDecoder []
       \<lparr>Operation = Create, ResourceVersion = ''v1'', Object = ''{}'', OldObject = []\<rparr>
       = Returns (Errored 422 (Aggregate
           [Invalid [''spec'', ''schedule'']
              ''schedule cannot be empty, please provide valid cron schedule.'',
            Invalid [''spec'', ''schedule''] ''empty spec string'',
            Forbidden [''spec'', ''template''] mustHaveOneTemplate]))
   \<and> Handle exampleLibraries exampleDecoder []
       \<lparr>Operation = Update, ResourceVersion = ''v1'', Object = ''{}'', OldObject = ''{}''\<rparr>
       = Returns (Errored 400 (DecodeError ''unsupported version: v1''))"
proof -
  let ?create = "\<lparr>Operation = Create, ResourceVersion = ''v1'', Object = ''{}'', OldObject = []\<rparr>"
  let ?update = "\<lparr>Operation = Update, ResourceVersion = ''v1'', Object = ''{}'', OldObject = ''{}''\<rparr>"
  have ver: "ResourceVersion ?create \<noteq> v1beta1_Version" "ResourceVersion ?create \<noteq> v1alpha1_Version"
    "ResourceVersion ?update \<noteq> v1beta1_Version" "ResourceVersion ?update \<noteq> v1alpha1_Version"
    by (simp_all add: v1beta1_Version_def v1alpha1_Version_def)
  have z: "validateAdvancedCronJob exampleLibraries (zeroAdvancedCronJob [])
      = Returns [Invalid [''spec'', ''schedule'']
              ''schedule cannot be empty, please provide valid cron schedule.'',
            Invalid [''spec'', ''schedule''] ''empty spec string'',
            Forbidden [''spec'', ''template''] mustHaveOneTemplate]"
    by (simp add: validateAdvancedCronJob_def validateAdvancedCronJobSpec_def
        validateAdvancedCronJobSpecSchedule_def validateCronSchedule_returns andThen_def
        validateTimeZone_def validateAdvancedCronJobSpecTemplate_split perKindErrors_def
        exclusivityErrors_def populatedTemplates_def zeroAdvancedCronJob_def
        exampleLibraries_def exampleParse_def NewPath_def Child_def)
  note c = unknown_version_not_rejected[OF ver(1,2), where dec = exampleDecoder
      and lib = exampleLibraries and zeroMeta = "[]" and obj = "zeroAdvancedCronJob []"
      and raw = "''{}''"]
  note u = unknown_version_not_rejected[OF ver(3,4), where dec = exampleDecoder
      and lib = exampleLibraries and zeroMeta = "[]", THEN conjunct2, THEN conjunct2,
      THEN conjunct2]
  from c z u show ?thesis
    by (simp add: unsupportedVersion_def StatusUnprocessableEntity_def StatusBadRequest_def)
qed

end
